theory Spec2Isabelle
  imports Complex_Main
begin

section \<open>The live telemetry buffer of the asset view\<close>

text \<open>
  The development embeds the live-streaming logic of
  \<^verbatim>\<open>frontend/src/components/AssetView.jsx\<close>: the sliding window \<^verbatim>\<open>historyData\<close>,
  the carry state \<^verbatim>\<open>prevValuesRef.current\<close>, the tick of the interval timer, the
  asynchronous history fetch, the two effects and the fallback of \<^verbatim>\<open>combinedData\<close>.

  Conventions of the embedding.
  \<^item> JavaScript numbers are modelled as real numbers: rounding error, overflow and NaN of
    IEEE doubles are outside the model.
  \<^item> \<^verbatim>\<open>Date.now()\<close> and \<^verbatim>\<open>Math.random()\<close> are inputs of the operation that reads them.
  \<^item> The display label \<^verbatim>\<open>time\<close> of a sample (a locale-dependent string derived from the
    timestamp) is left out.
  \<^item> Every callback runs to completion before the next one starts, so the component is a
    state machine over events.
\<close>

subsection \<open>Data\<close>

text \<open>A point of the chart, as built in lines 87-95 and 111-119.\<close>

record sample =
  timestamp :: int
  Torque :: real
  Temperature :: real
  Speed :: real
  Vibration :: real
  current_tool_wear_pct :: real

text \<open>The object held by \<^verbatim>\<open>prevValuesRef.current\<close> (lines 43-49).\<close>

record prev_values =
  pv_Torque :: real
  pv_Temperature :: real
  pv_Speed :: real
  pv_Vibration :: real
  pv_current_tool_wear_pct :: real

definition default_prev :: prev_values where
  "default_prev =
     \<lparr>pv_Torque = 40, pv_Temperature = 300, pv_Speed = 2800, pv_Vibration = 0.5,
      pv_current_tool_wear_pct = 35\<rparr>"

text \<open>
  One element \<^verbatim>\<open>d\<close> of the array returned by the history service, an object. \<open>d_time\<close>
  is the value of \<^verbatim>\<open>new Date(d.time).getTime()\<close>, taken to be a valid date; a metric
  field is \<open>None\<close> when the property is absent (or null) and \<open>Some x\<close> when it holds the
  number \<open>x\<close>. Elements that are not objects and metric fields that hold something
  other than a number are outside the model.
\<close>

record history_record =
  d_time :: int
  d_Torque :: "real option"
  d_Temperature :: "real option"
  d_Speed :: "real option"
  d_Vibration :: "real option"
  d_tool_wear_pct :: "real option"

text \<open>
  What one run of the streaming effect closes over (lines 53-54): its own \<^verbatim>\<open>isMounted\<close>
  flag and its own \<^verbatim>\<open>tickCount\<close>.
\<close>

record closure =
  isMounted :: bool
  tickCount :: nat

text \<open>
  The component state: the React state \<^verbatim>\<open>historyData\<close>, the ref \<^verbatim>\<open>prevValuesRef.current\<close>
  and the store of the closures of all runs of the streaming effect so far, the last one
  being the current run.
\<close>

record state =
  historyData :: "sample list"
  prevValues :: prev_values
  closures :: "closure list"

text \<open>What the clock and the random generator return during one tick, in call order.\<close>

record tick_env =
  now :: int
  rnd_Torque :: real
  rnd_Temperature :: real
  rnd_Speed :: real
  rnd_Vibration :: real
  rnd_wear :: real

text \<open>\<^verbatim>\<open>Math.random()\<close> returns a number in \<open>[0, 1)\<close>.\<close>

definition is_random :: "real \<Rightarrow> bool" where
  "is_random r = (0 \<le> r \<and> r < 1)"

definition random_env :: "tick_env \<Rightarrow> bool" where
  "random_env env =
     (is_random (rnd_Torque env) \<and> is_random (rnd_Temperature env) \<and> is_random (rnd_Speed env)
      \<and> is_random (rnd_Vibration env) \<and> is_random (rnd_wear env))"

text \<open>The outcome of the history request of lines 104-107.\<close>

datatype fetch_result =
    NetworkError
  | NotOk
  | MalformedJson
  | NotArray
  | JsonArray "history_record list"

subsection \<open>Helpers of the platform\<close>

definition MAX_DATA_POINTS :: nat where
  "MAX_DATA_POINTS = 100"

text \<open>\<^verbatim>\<open>xs.slice(-n)\<close> for \<open>n > 0\<close>: the last \<open>n\<close> elements, all of them when there are fewer.\<close>

definition slice_last :: "nat \<Rightarrow> 'a list \<Rightarrow> 'a list" where
  "slice_last n xs = drop (length xs - n) xs"

text \<open>
  \<^verbatim>\<open>Number(x.toFixed(d))\<close>: the nearest multiple of \<open>10 ^ - d\<close>, a tie going away from zero.
\<close>

definition toFixed :: "nat \<Rightarrow> real \<Rightarrow> real" where
  "toFixed d x =
     (if x < 0 then - (of_int \<lfloor>- x * 10 ^ d + 1 / 2\<rfloor> / 10 ^ d)
      else of_int \<lfloor>x * 10 ^ d + 1 / 2\<rfloor> / 10 ^ d)"

text \<open>
  \<^verbatim>\<open>v || dflt\<close> for a field that is absent or a number: the falsy values are
  \<^verbatim>\<open>undefined\<close>, \<^verbatim>\<open>null\<close> and \<open>0\<close>.
\<close>

definition js_or :: "real option \<Rightarrow> real \<Rightarrow> real" where
  "js_or v dflt = (case v of None \<Rightarrow> dflt | Some x \<Rightarrow> if x = 0 then dflt else x)"

subsection \<open>The tick\<close>

text \<open>
  \<^verbatim>\<open>generateNewDataPoint\<close> (lines 57-96), with the tick counter and the carry state it
  reads as arguments; it returns the new carry state and the point.
\<close>

definition generateNewDataPoint :: "nat \<Rightarrow> prev_values \<Rightarrow> tick_env \<Rightarrow> prev_values \<times> sample" where
  "generateNewDataPoint tc pv env =
     (let oscillation = sin (real tc * 0.3) * 0.5;
          tremor = sin (real tc * 0.7) * 0.3;
          newTorque = max 25 (min 55 (pv_Torque pv + (rnd_Torque env - 0.5) * 6 + oscillation * 3));
          newTemp = max 290 (min 315 (pv_Temperature pv + (rnd_Temperature env - 0.5) * 3 + tremor * 2));
          newSpeed = max 2650 (min 2950 (pv_Speed pv + (rnd_Speed env - 0.5) * 80 + oscillation * 30));
          newVibration =
            max 0.25 (min 0.85 (pv_Vibration pv + (rnd_Vibration env - 0.5) * 0.15 + tremor * 0.05));
          wearIncrement = 0.2 + rnd_wear env * 0.4 + \<bar>oscillation\<bar> * 0.3;
          newToolWear = min 95 (max 5 (pv_current_tool_wear_pct pv + wearIncrement))
      in (\<lparr>pv_Torque = newTorque, pv_Temperature = newTemp, pv_Speed = newSpeed,
           pv_Vibration = newVibration, pv_current_tool_wear_pct = newToolWear\<rparr>,
          \<lparr>timestamp = now env, Torque = toFixed 1 newTorque, Temperature = toFixed 1 newTemp,
           Speed = toFixed 0 newSpeed, Vibration = toFixed 2 newVibration,
           current_tool_wear_pct = toFixed 1 newToolWear\<rparr>))"

text \<open>
  The interval callback of run \<open>k\<close> (lines 147-161): nothing happens when the run's flag
  is down; otherwise the run's counter is incremented, the point is generated and
  appended, and the window keeps its last \<open>MAX_DATA_POINTS\<close> points.
\<close>

definition tick :: "nat \<Rightarrow> tick_env \<Rightarrow> state \<Rightarrow> state" where
  "tick k env st =
     (if k < length (closures st) \<and> isMounted (closures st ! k) then
        (let tc = tickCount (closures st ! k) + 1;
             (pv, newPoint) = generateNewDataPoint tc (prevValues st) env
         in st\<lparr>closures := (closures st)[k := (closures st ! k)\<lparr>tickCount := tc\<rparr>],
               prevValues := pv,
               historyData := slice_last MAX_DATA_POINTS (historyData st @ [newPoint])\<rparr>)
      else st)"

subsection \<open>Seeding from the history service\<close>

text \<open>The conversion of one record (lines 109-120).\<close>

definition convert :: "history_record \<Rightarrow> sample" where
  "convert d =
     \<lparr>timestamp = d_time d,
      Torque = js_or (d_Torque d) 40,
      Temperature = js_or (d_Temperature d) 300,
      Speed = js_or (d_Speed d) 2800,
      Vibration = js_or (d_Vibration d) 0.5,
      current_tool_wear_pct = js_or (d_tool_wear_pct d) 35\<rparr>"

definition initialData :: "history_record list \<Rightarrow> sample list" where
  "initialData data = map convert (slice_last 50 data)"

definition prev_of :: "sample \<Rightarrow> prev_values" where
  "prev_of lastPoint =
     \<lparr>pv_Torque = Torque lastPoint, pv_Temperature = Temperature lastPoint,
      pv_Speed = Speed lastPoint, pv_Vibration = Vibration lastPoint,
      pv_current_tool_wear_pct = current_tool_wear_pct lastPoint\<rparr>"

text \<open>
  The continuation of \<^verbatim>\<open>initializeAndStream\<close> of run \<open>k\<close> once its request has settled
  (lines 105-140). A rejected request, a status that is not OK and a body that is not
  JSON end in the \<^verbatim>\<open>catch\<close> or skip the \<^verbatim>\<open>if\<close>; so does a body that is not a non-empty
  array, and so does a result that arrives when the flag of run \<open>k\<close> is down. The
  \<^verbatim>\<open>catch\<close> logs a warning and returns, so the continuation has no error result. A run
  that starts while \<^verbatim>\<open>robot?.id\<close> is undefined makes no request (line 100): no result
  ever arrives for it.
\<close>

definition seed_arrives :: "nat \<Rightarrow> fetch_result \<Rightarrow> state \<Rightarrow> state" where
  "seed_arrives k res st =
     (case res of
        JsonArray data \<Rightarrow>
          if data \<noteq> [] \<and> k < length (closures st) \<and> isMounted (closures st ! k) then
            (let pts = initialData data;
                 st' = (if pts \<noteq> [] then st\<lparr>prevValues := prev_of (last pts)\<rparr> else st)
             in st'\<lparr>historyData := pts\<rparr>)
          else st
      | _ \<Rightarrow> st)"

subsection \<open>The effects\<close>

text \<open>
  The cleanup of the streaming effect (lines 163-166) lowers the flag of the current run
  and clears its interval, after which the guard of line 148 is the only trace of the run.
\<close>

definition cleanup :: "state \<Rightarrow> state" where
  "cleanup st =
     (if closures st = [] then st
      else st\<lparr>closures :=
        (closures st)[length (closures st) - 1 := (last (closures st))\<lparr>isMounted := False\<rparr>]\<rparr>)"

text \<open>The body of the streaming effect (lines 52-54) opens a run with a fresh flag and counter.\<close>

definition run_effect :: "state \<Rightarrow> state" where
  "run_effect st = st\<lparr>closures := closures st @ [\<lparr>isMounted = True, tickCount = 0\<rparr>]\<rparr>"

text \<open>The reset effect (lines 170-179), whose only dependency is the time range.\<close>

definition reset_effect :: "state \<Rightarrow> state" where
  "reset_effect st = st\<lparr>historyData := [], prevValues := default_prev\<rparr>"

text \<open>The first render runs both effects on the initial values of lines 38 and 43-49.\<close>

definition mount :: state where
  "mount = reset_effect (run_effect \<lparr>historyData = [], prevValues = default_prev, closures = []\<rparr>)"

text \<open>
  The events of the component. A change of the time range re-runs both effects, a
  change of \<^verbatim>\<open>robot?.id\<close> re-runs the streaming effect only (its dependencies are
  \<^verbatim>\<open>[robot?.id, timeRange]\<close>, those of the reset effect \<^verbatim>\<open>[timeRange]\<close>).
\<close>

datatype event =
    Tick nat tick_env
  | SeedArrives nat fetch_result
  | RangeChange
  | SubjectChange
  | Unmount

fun step :: "state \<Rightarrow> event \<Rightarrow> state" where
  "step st (Tick k env) = tick k env st"
| "step st (SeedArrives k res) = seed_arrives k res st"
| "step st RangeChange = reset_effect (run_effect (cleanup st))"
| "step st SubjectChange = run_effect (cleanup st)"
| "step st Unmount = cleanup st"

definition exec :: "state \<Rightarrow> event list \<Rightarrow> state" where
  "exec st evs = foldl step st evs"

text \<open>Whether run \<open>k\<close> exists and has its flag up.\<close>

definition live :: "nat \<Rightarrow> state \<Rightarrow> bool" where
  "live k st = (k < length (closures st) \<and> isMounted (closures st ! k))"

subsection \<open>What the charts receive\<close>

text \<open>
  \<^verbatim>\<open>combinedData\<close> (lines 182-205): the window, or twenty mock points when the window is
  empty. \<open>t\<close> is the clock reading of \<^verbatim>\<open>new Date()\<close> and \<open>rnd j\<close> the result of the
  \<open>j\<close>-th call of \<^verbatim>\<open>Math.random()\<close> of this evaluation, five calls per point.
\<close>

definition mock_point :: "int \<Rightarrow> (nat \<Rightarrow> real) \<Rightarrow> nat \<Rightarrow> sample" where
  "mock_point t rnd i =
     (let trend = real i * 0.5
      in \<lparr>timestamp = t - (20 - int i) * 3 * 60 * 1000,
          Torque = 40 + sin (real i / 3) * 5 + (rnd (5 * i) - 0.5) * 2,
          Temperature = 300 + sin (real i / 4) * 3 + (rnd (5 * i + 1) - 0.5),
          Speed = 2800 + cos (real i / 5) * 100 + (rnd (5 * i + 2) - 0.5) * 20,
          Vibration = 0.4 + rnd (5 * i + 3) * 0.3,
          current_tool_wear_pct = 30 + trend + (rnd (5 * i + 4) * 4 - 2)\<rparr>)"

definition combinedData :: "sample list \<Rightarrow> int \<Rightarrow> (nat \<Rightarrow> real) \<Rightarrow> sample list" where
  "combinedData hist t rnd =
     (if length hist = 0 then map (mock_point t rnd) [0 ..< 20] else hist)"

subsection \<open>Runs of ticks and the properties checked\<close>

text \<open>The state after the interval of run \<open>k\<close> has fired once for each element of \<open>envs\<close>.\<close>

definition ticks :: "nat \<Rightarrow> state \<Rightarrow> tick_env list \<Rightarrow> state" where
  "ticks k st envs = exec st (map (Tick k) envs)"

text \<open>
  The points that successive calls of \<^verbatim>\<open>generateNewDataPoint\<close> return when the counter
  stands at \<open>tc\<close> and the carry state at \<open>pv\<close> before the first call.
\<close>

fun generated :: "nat \<Rightarrow> prev_values \<Rightarrow> tick_env list \<Rightarrow> sample list" where
  "generated tc pv [] = []"
| "generated tc pv (env # envs) =
     snd (generateNewDataPoint (tc + 1) pv env)
       # generated (tc + 1) (fst (generateNewDataPoint (tc + 1) pv env)) envs"

text \<open>The ranges of the four bounded metrics and of the wear percentage.\<close>

definition within_ranges :: "sample \<Rightarrow> bool" where
  "within_ranges s =
     (25 \<le> Torque s \<and> Torque s \<le> 55 \<and> 290 \<le> Temperature s \<and> Temperature s \<le> 315
      \<and> 2650 \<le> Speed s \<and> Speed s \<le> 2950 \<and> 0.25 \<le> Vibration s \<and> Vibration s \<le> 0.85)"

definition wear_in_range :: "sample \<Rightarrow> bool" where
  "wear_in_range s = (5 \<le> current_tool_wear_pct s \<and> current_tool_wear_pct s \<le> 95)"

text \<open>The metric values of a point, in the shape of the carry state.\<close>

definition rounded :: "prev_values \<Rightarrow> prev_values" where
  "rounded pv =
     \<lparr>pv_Torque = toFixed 1 (pv_Torque pv), pv_Temperature = toFixed 1 (pv_Temperature pv),
      pv_Speed = toFixed 0 (pv_Speed pv), pv_Vibration = toFixed 2 (pv_Vibration pv),
      pv_current_tool_wear_pct = toFixed 1 (pv_current_tool_wear_pct pv)\<rparr>"

text \<open>The events that end the current run: its cleanup lowers the run's flag.\<close>

fun ends_run :: "event \<Rightarrow> bool" where
  "ends_run RangeChange = True"
| "ends_run SubjectChange = True"
| "ends_run Unmount = True"
| "ends_run (Tick k env) = False"
| "ends_run (SeedArrives k res) = False"

text \<open>A run \<open>k\<close> whose flag is down.\<close>

definition stale :: "nat \<Rightarrow> state \<Rightarrow> bool" where
  "stale k st = (k < length (closures st) \<and> \<not> isMounted (closures st ! k))"

text \<open>Every run but the current one has its flag down.\<close>

definition old_runs_down :: "state \<Rightarrow> bool" where
  "old_runs_down st = list_all (\<lambda>c. \<not> isMounted c) (butlast (closures st))"

text \<open>
  The outcomes of the request that seed nothing: a failure, a body that is not an array,
  or an empty array.
\<close>

fun no_seed :: "fetch_result \<Rightarrow> bool" where
  "no_seed NetworkError = True"
| "no_seed NotOk = True"
| "no_seed MalformedJson = True"
| "no_seed NotArray = True"
| "no_seed (JsonArray data) = (data = [])"

subsection \<open>Inputs used in the examples\<close>

text \<open>A random generator that returns \<open>r\<close> at every call.\<close>

definition draws_const :: "real \<Rightarrow> nat \<Rightarrow> real" where
  "draws_const r j = r"

text \<open>The tick whose clock reads \<open>t\<close> and whose five draws are all \<open>1 / 2\<close>.\<close>

definition mid_env :: "int \<Rightarrow> tick_env" where
  "mid_env t =
     \<lparr>now = t, rnd_Torque = 1 / 2, rnd_Temperature = 1 / 2, rnd_Speed = 1 / 2,
      rnd_Vibration = 1 / 2, rnd_wear = 1 / 2\<rparr>"

text \<open>\<open>n\<close> such ticks, five seconds apart, the first at \<open>t0\<close>.\<close>

definition clock_envs :: "int \<Rightarrow> nat \<Rightarrow> tick_env list" where
  "clock_envs t0 n = map (\<lambda>i. mid_env (t0 + 5000 * int i)) [0 ..< n]"

section \<open>Auxiliary facts\<close>

subsection \<open>Rounding\<close>

lemma toFixed_mono: "x \<le> y \<Longrightarrow> toFixed d x \<le> toFixed d y"
proof -
  assume xy: "x \<le> y"
  have pos: "(0::real) < 10 ^ d" by simp
  have nonneg: "0 \<le> real_of_int \<lfloor>z * 10 ^ d + 1 / 2\<rfloor> / 10 ^ d" if "0 \<le> z" for z :: real
  proof -
    have "0 \<le> z * 10 ^ d + 1 / 2" using that by simp
    then have "0 \<le> \<lfloor>z * 10 ^ d + 1 / 2\<rfloor>" by simp
    then show ?thesis by simp
  qed
  have step: "real_of_int \<lfloor>a * 10 ^ d + 1 / 2\<rfloor> / 10 ^ d \<le> real_of_int \<lfloor>b * 10 ^ d + 1 / 2\<rfloor> / 10 ^ d"
    if "a \<le> b" for a b :: real
  proof -
    have "a * 10 ^ d + 1 / 2 \<le> b * 10 ^ d + 1 / 2" using that by simp
    then have "\<lfloor>a * 10 ^ d + 1 / 2\<rfloor> \<le> \<lfloor>b * 10 ^ d + 1 / 2\<rfloor>" by (rule floor_mono)
    then show ?thesis by (simp add: divide_right_mono)
  qed
  consider "y < 0" | "x < 0" "0 \<le> y" | "0 \<le> x" using xy by linarith
  then show ?thesis
  proof cases
    case 1
    then have "x < 0" using xy by simp
    moreover have "- y \<le> - x" using xy by simp
    ultimately show ?thesis using 1 step [of "- y" "- x"] by (simp add: toFixed_def)
  next
    case 2
    have "0 \<le> - x" using 2 by simp
    then have a: "0 \<le> real_of_int \<lfloor>- x * 10 ^ d + 1 / 2\<rfloor> / 10 ^ d" by (rule nonneg)
    have b: "0 \<le> real_of_int \<lfloor>y * 10 ^ d + 1 / 2\<rfloor> / 10 ^ d" using 2 by (intro nonneg)
    have "toFixed d x = - (real_of_int \<lfloor>- x * 10 ^ d + 1 / 2\<rfloor> / 10 ^ d)"
      using 2 unfolding toFixed_def by (simp only: if_True)
    moreover have "toFixed d y = real_of_int \<lfloor>y * 10 ^ d + 1 / 2\<rfloor> / 10 ^ d"
      using 2 unfolding toFixed_def by (simp only: not_less [symmetric] if_False)
    ultimately show ?thesis using a b by linarith
  next
    case 3
    then have "0 \<le> y" using xy by simp
    then show ?thesis using 3 step [of x y] xy by (simp add: toFixed_def)
  qed
qed

lemma toFixed_of_int: "0 \<le> n \<Longrightarrow> toFixed d (real_of_int n / 10 ^ d) = real_of_int n / 10 ^ d"
proof -
  assume n: "0 \<le> n"
  have "\<lfloor>real_of_int n + 1 / 2\<rfloor> = n" by linarith
  then show ?thesis using n by (simp add: toFixed_def)
qed

lemma toFixed_fix:
  "toFixed 1 25 = 25" "toFixed 1 55 = 55" "toFixed 1 290 = 290" "toFixed 1 315 = 315"
  "toFixed 0 2650 = 2650" "toFixed 0 2950 = 2950" "toFixed 2 0.25 = 0.25" "toFixed 2 0.85 = 0.85"
  "toFixed 1 5 = 5" "toFixed 1 95 = 95"
  using toFixed_of_int [of 250 1] toFixed_of_int [of 550 1] toFixed_of_int [of 2900 1]
    toFixed_of_int [of 3150 1] toFixed_of_int [of 2650 0] toFixed_of_int [of 2950 0]
    toFixed_of_int [of 25 2] toFixed_of_int [of 85 2] toFixed_of_int [of 50 1]
    toFixed_of_int [of 950 1]
  by simp_all

lemma toFixed_between:
  "toFixed d lo = lo \<Longrightarrow> toFixed d hi = hi \<Longrightarrow> lo \<le> x \<Longrightarrow> x \<le> hi \<Longrightarrow>
   lo \<le> toFixed d x \<and> toFixed d x \<le> hi"
  using toFixed_mono [of lo x d] toFixed_mono [of x hi d] by simp

subsection \<open>The sliding window under ticks\<close>

lemma slice_last_length: "length (slice_last n xs) = min n (length xs)"
  by (simp add: slice_last_def)

lemma slice_last_short: "length xs \<le> n \<Longrightarrow> slice_last n xs = xs"
  by (simp add: slice_last_def)

lemma slice_last_append:
  "slice_last n (slice_last n xs @ ys) = slice_last n (xs @ ys)"
proof (cases "length xs \<le> n")
  case True
  then show ?thesis by (simp add: slice_last_def)
next
  case False
  then have "length xs + length ys - (length xs - n + n) + (length xs - n) = length xs + length ys - n"
    by simp
  then show ?thesis using False by (simp add: slice_last_def)
qed

lemma slice_last_slice_last: "m \<le> n \<Longrightarrow> slice_last m (slice_last n xs) = slice_last m xs"
proof -
  assume "m \<le> n"
  then have "length xs - (length xs - n + m) + (length xs - n) = length xs - m"
    by simp
  then show ?thesis by (simp add: slice_last_def)
qed

lemma live_tick: "live k st \<Longrightarrow> live k (tick k env st)"
  by (simp add: live_def tick_def Let_def split: prod.splits)

lemma tick_live:
  "live k st \<Longrightarrow>
   historyData (tick k env st) =
     slice_last MAX_DATA_POINTS
       (historyData st @ [snd (generateNewDataPoint (tickCount (closures st ! k) + 1) (prevValues st) env)])
   \<and> prevValues (tick k env st) = fst (generateNewDataPoint (tickCount (closures st ! k) + 1) (prevValues st) env)
   \<and> tickCount (closures (tick k env st) ! k) = tickCount (closures st ! k) + 1"
  by (simp add: live_def tick_def Let_def split: prod.splits)

lemma ticks_Nil: "ticks k st [] = st"
  by (simp add: ticks_def exec_def)

lemma ticks_Cons: "ticks k st (env # envs) = ticks k (tick k env st) envs"
  by (simp add: ticks_def exec_def)

lemma live_ticks: "live k st \<Longrightarrow> live k (ticks k st envs)"
  by (induction envs arbitrary: st) (simp_all add: ticks_Nil ticks_Cons live_tick)

lemma window_ticks:
  "live k st \<Longrightarrow> length (historyData st) \<le> MAX_DATA_POINTS \<Longrightarrow>
   historyData (ticks k st envs) =
     slice_last MAX_DATA_POINTS
       (historyData st @ generated (tickCount (closures st ! k)) (prevValues st) envs)"
proof (induction envs arbitrary: st)
  case Nil
  then show ?case by (simp add: ticks_Nil slice_last_short)
next
  case (Cons env envs)
  have l: "live k (tick k env st)" using Cons.prems(1) by (rule live_tick)
  have t: "historyData (tick k env st) =
     slice_last MAX_DATA_POINTS
       (historyData st @ [snd (generateNewDataPoint (tickCount (closures st ! k) + 1) (prevValues st) env)])"
    using tick_live [OF Cons.prems(1), of env] by simp
  have n: "length (historyData (tick k env st)) \<le> MAX_DATA_POINTS"
    unfolding t by (simp add: slice_last_length)
  show ?case
    using Cons.IH [OF l n] tick_live [OF Cons.prems(1), of env]
    by (simp add: ticks_Cons slice_last_append)
qed

lemma length_generated: "length (generated tc pv envs) = length envs"
  by (induction envs arbitrary: tc pv) simp_all

lemma timestamp_generated: "map timestamp (generated tc pv envs) = map now envs"
  by (induction envs arbitrary: tc pv) (simp_all add: generateNewDataPoint_def Let_def)

subsection \<open>One generated point\<close>

lemma point_is_rounded_carry:
  "prev_of (snd (generateNewDataPoint tc pv env)) = rounded (fst (generateNewDataPoint tc pv env))"
  by (simp add: generateNewDataPoint_def Let_def prev_of_def rounded_def)

lemma clamp_ge: "lo \<le> max lo (min hi x)" for lo hi x :: real
  by simp

lemma clamp_le: "lo \<le> hi \<Longrightarrow> max lo (min hi x) \<le> hi" for lo hi x :: real
  by simp

lemma wear_clamp_ge: "lo \<le> hi \<Longrightarrow> lo \<le> min hi (max lo x)" for lo hi x :: real
  by simp

lemma wear_clamp_le: "min hi (max lo x) \<le> hi" for lo hi x :: real
  by simp

lemma carry_lower:
  "25 \<le> pv_Torque (fst (generateNewDataPoint tc pv env))"
  "290 \<le> pv_Temperature (fst (generateNewDataPoint tc pv env))"
  "2650 \<le> pv_Speed (fst (generateNewDataPoint tc pv env))"
  "0.25 \<le> pv_Vibration (fst (generateNewDataPoint tc pv env))"
  unfolding generateNewDataPoint_def Let_def fst_conv prev_values.select_convs
  by (rule clamp_ge)+

lemma carry_upper:
  "pv_Torque (fst (generateNewDataPoint tc pv env)) \<le> 55"
  "pv_Temperature (fst (generateNewDataPoint tc pv env)) \<le> 315"
  "pv_Speed (fst (generateNewDataPoint tc pv env)) \<le> 2950"
  "pv_Vibration (fst (generateNewDataPoint tc pv env)) \<le> 0.85"
  unfolding generateNewDataPoint_def Let_def fst_conv prev_values.select_convs
  by (rule clamp_le, simp)+

lemma carry_wear_lower: "5 \<le> pv_current_tool_wear_pct (fst (generateNewDataPoint tc pv env))"
  unfolding generateNewDataPoint_def Let_def fst_conv prev_values.select_convs
  by (rule wear_clamp_ge) simp

lemma carry_wear_upper: "pv_current_tool_wear_pct (fst (generateNewDataPoint tc pv env)) \<le> 95"
  unfolding generateNewDataPoint_def Let_def fst_conv prev_values.select_convs
  by (rule wear_clamp_le)

lemma point_fields:
  "Torque (snd (generateNewDataPoint tc pv env)) = toFixed 1 (pv_Torque (fst (generateNewDataPoint tc pv env)))"
  "Temperature (snd (generateNewDataPoint tc pv env)) = toFixed 1 (pv_Temperature (fst (generateNewDataPoint tc pv env)))"
  "Speed (snd (generateNewDataPoint tc pv env)) = toFixed 0 (pv_Speed (fst (generateNewDataPoint tc pv env)))"
  "Vibration (snd (generateNewDataPoint tc pv env)) = toFixed 2 (pv_Vibration (fst (generateNewDataPoint tc pv env)))"
  "current_tool_wear_pct (snd (generateNewDataPoint tc pv env)) =
     toFixed 1 (pv_current_tool_wear_pct (fst (generateNewDataPoint tc pv env)))"
  by (simp_all add: generateNewDataPoint_def Let_def)

lemma point_within_ranges: "within_ranges (snd (generateNewDataPoint tc pv env))"
  unfolding within_ranges_def point_fields
  using toFixed_between [OF toFixed_fix(1) toFixed_fix(2) carry_lower(1) carry_upper(1), of tc pv env]
    toFixed_between [OF toFixed_fix(3) toFixed_fix(4) carry_lower(2) carry_upper(2), of tc pv env]
    toFixed_between [OF toFixed_fix(5) toFixed_fix(6) carry_lower(3) carry_upper(3), of tc pv env]
    toFixed_between [OF toFixed_fix(7) toFixed_fix(8) carry_lower(4) carry_upper(4), of tc pv env]
  by blast

lemma point_wear_in_range: "wear_in_range (snd (generateNewDataPoint tc pv env))"
  unfolding wear_in_range_def point_fields
  using toFixed_between [OF toFixed_fix(9) toFixed_fix(10) carry_wear_lower carry_wear_upper, of tc pv env]
  by blast

lemma generated_within_ranges: "list_all within_ranges (generated tc pv envs)"
  by (induction envs arbitrary: tc pv) (simp_all add: point_within_ranges)

lemma generated_wear_in_range: "list_all wear_in_range (generated tc pv envs)"
  by (induction envs arbitrary: tc pv) (simp_all add: point_wear_in_range)

lemma list_all_slice_last: "list_all P xs \<Longrightarrow> list_all P (slice_last n xs)"
  unfolding slice_last_def list_all_iff using set_drop_subset [of "length xs - n" xs] by blast

lemma window_ticks_nonempty:
  "live k st \<Longrightarrow> envs \<noteq> [] \<Longrightarrow>
   historyData (ticks k st envs) =
     slice_last MAX_DATA_POINTS
       (historyData st @ generated (tickCount (closures st ! k)) (prevValues st) envs)"
proof (cases envs)
  case Nil
  assume "envs \<noteq> []"
  with Nil show ?thesis by simp
next
  case (Cons env envs')
  assume l: "live k st"
  have l': "live k (tick k env st)" using l by (rule live_tick)
  have t: "historyData (tick k env st) =
     slice_last MAX_DATA_POINTS
       (historyData st @ [snd (generateNewDataPoint (tickCount (closures st ! k) + 1) (prevValues st) env)])"
    using tick_live [OF l, of env] by simp
  have n: "length (historyData (tick k env st)) \<le> MAX_DATA_POINTS"
    unfolding t by (simp add: slice_last_length)
  show ?thesis
    using window_ticks [OF l' n, of envs'] tick_live [OF l, of env]
    by (simp add: Cons ticks_Cons slice_last_append)
qed

lemma slice_last_tail:
  "length g = n \<Longrightarrow> slice_last n (slice_last m (h @ g)) = slice_last m g"
proof (cases "n \<le> m")
  case True
  assume g: "length g = n"
  have "slice_last n (slice_last m (h @ g)) = slice_last n (h @ g)"
    using True by (rule slice_last_slice_last)
  also have "\<dots> = g" using g by (simp add: slice_last_def)
  also have "\<dots> = slice_last m g" using True g by (simp add: slice_last_short)
  finally show ?thesis .
next
  case False
  assume g: "length g = n"
  have "length (slice_last m (h @ g)) \<le> n" using False by (simp add: slice_last_length)
  then have "slice_last n (slice_last m (h @ g)) = slice_last m (h @ g)"
    by (rule slice_last_short)
  also have "\<dots> = slice_last m g" using False g by (simp add: slice_last_def)
  finally show ?thesis .
qed

lemma tick_points:
  "live k st \<Longrightarrow>
   slice_last (length envs) (historyData (ticks k st envs)) =
     slice_last MAX_DATA_POINTS (generated (tickCount (closures st ! k)) (prevValues st) envs)"
proof (cases "envs = []")
  case True
  then show ?thesis by (simp add: slice_last_def)
next
  case False
  assume l: "live k st"
  show ?thesis
    unfolding window_ticks_nonempty [OF l False]
    by (rule slice_last_tail) (simp add: length_generated)
qed

subsection \<open>The sine at the first tick\<close>

lemma sin_03: "29 / 100 < sin (3 / 10 :: real) \<and> sin (3 / 10 :: real) < 31 / 100"
proof -
  have "\<bar>sin (3 / 10 :: real) - (\<Sum>m<3. sin_coeff m * (3 / 10) ^ m)\<bar>
      \<le> inverse (fact 3) * \<bar>3 / 10\<bar> ^ 3"
    by (rule Maclaurin_sin_bound)
  moreover have "(\<Sum>m<3. sin_coeff m * (3 / 10 :: real) ^ m) = 3 / 10"
    by (simp add: sin_coeff_def eval_nat_numeral lessThan_Suc)
  moreover have "inverse (fact 3) * \<bar>3 / 10 :: real\<bar> ^ 3 = 9 / 2000"
    by (simp add: eval_nat_numeral)
  ultimately have "\<bar>sin (3 / 10 :: real) - 3 / 10\<bar> \<le> 9 / 2000"
    by simp
  then show ?thesis
    by linarith
qed

subsection \<open>The first tick after mounting\<close>

lemma tick_appends:
  "live k st \<Longrightarrow> historyData (tick k env st) \<noteq> []
     \<and> last (historyData (tick k env st)) =
         snd (generateNewDataPoint (tickCount (closures st ! k) + 1) (prevValues st) env)"
  using tick_live [of k st env] by (simp add: slice_last_def MAX_DATA_POINTS_def)

lemma live_mount: "live 0 mount"
  by (simp add: live_def mount_def reset_effect_def run_effect_def)

lemma mount_simps:
  "historyData mount = []" "prevValues mount = default_prev"
  "closures mount = [\<lparr>isMounted = True, tickCount = 0\<rparr>]"
  by (simp_all add: mount_def reset_effect_def run_effect_def)

lemma first_speed:
  "pv_Speed (fst (generateNewDataPoint 1 default_prev (mid_env t))) = 2800 + 15 * sin (3 / 10 :: real)"
proof -
  have "2650 \<le> 2800 + 15 * sin (3 / 10 :: real)" "2800 + 15 * sin (3 / 10 :: real) \<le> 2950"
    using sin_03 by linarith+
  then have "max 2650 (min 2950 (2800 + 15 * sin (3 / 10 :: real))) = 2800 + 15 * sin (3 / 10 :: real)"
    by simp
  then show ?thesis
    by (simp add: generateNewDataPoint_def Let_def default_prev_def mid_env_def)
qed

subsection \<open>The wear percentage along a run of ticks\<close>

lemma carry_wear_grows:
  assumes "random_env env" and "pv_current_tool_wear_pct pv \<le> 95"
  shows "pv_current_tool_wear_pct pv \<le> pv_current_tool_wear_pct (fst (generateNewDataPoint tc pv env))"
proof -
  have r: "0 \<le> rnd_wear env" using assms(1) by (simp add: random_env_def is_random_def)
  have "0 \<le> 0.2 + rnd_wear env * 0.4 + \<bar>sin (real tc * 0.3) * 0.5\<bar> * 0.3"
    using r by simp
  then have "pv_current_tool_wear_pct pv
      \<le> min 95 (max 5 (pv_current_tool_wear_pct pv
            + (0.2 + rnd_wear env * 0.4 + \<bar>sin (real tc * 0.3) * 0.5\<bar> * 0.3)))"
    using assms(2) by linarith
  then show ?thesis
    unfolding generateNewDataPoint_def Let_def fst_conv prev_values.select_convs .
qed

lemma generated_wear_lower:
  "pv_current_tool_wear_pct pv \<le> 95 \<Longrightarrow> list_all random_env envs \<Longrightarrow>
   list_all (\<lambda>s. toFixed 1 (pv_current_tool_wear_pct pv) \<le> current_tool_wear_pct s)
     (generated tc pv envs)"
proof (induction envs arbitrary: tc pv)
  case Nil
  then show ?case by simp
next
  case (Cons env envs)
  let ?pv' = "fst (generateNewDataPoint (tc + 1) pv env)"
  have e: "random_env env" and es: "list_all random_env envs" using Cons.prems(2) by simp_all
  have g: "pv_current_tool_wear_pct pv \<le> pv_current_tool_wear_pct ?pv'"
    using e Cons.prems(1) by (rule carry_wear_grows)
  have m: "toFixed 1 (pv_current_tool_wear_pct pv) \<le> toFixed 1 (pv_current_tool_wear_pct ?pv')"
    using g by (rule toFixed_mono)
  have "list_all (\<lambda>s. toFixed 1 (pv_current_tool_wear_pct ?pv') \<le> current_tool_wear_pct s)
     (generated (tc + 1) ?pv' envs)"
    using carry_wear_upper es by (rule Cons.IH)
  then have "list_all (\<lambda>s. toFixed 1 (pv_current_tool_wear_pct pv) \<le> current_tool_wear_pct s)
     (generated (tc + 1) ?pv' envs)"
    using m by (auto simp: list_all_iff)
  then show ?case using m by (simp add: point_fields)
qed

lemma generated_wear_sorted:
  "list_all random_env envs \<Longrightarrow> sorted (map current_tool_wear_pct (generated tc pv envs))"
proof (induction envs arbitrary: tc pv)
  case Nil
  then show ?case by simp
next
  case (Cons env envs)
  let ?pv' = "fst (generateNewDataPoint (tc + 1) pv env)"
  have es: "list_all random_env envs" using Cons.prems by simp
  have "list_all (\<lambda>s. toFixed 1 (pv_current_tool_wear_pct ?pv') \<le> current_tool_wear_pct s)
     (generated (tc + 1) ?pv' envs)"
    using carry_wear_upper es by (rule generated_wear_lower)
  then show ?case
    using Cons.IH [OF es, of "tc + 1" ?pv'] by (simp add: point_fields list_all_iff)
qed

lemma sorted_slice_last: "sorted (map f xs) \<Longrightarrow> sorted (map f (slice_last n xs))"
  unfolding slice_last_def drop_map [symmetric] by (rule sorted_wrt_drop)

lemma random_mid_env: "random_env (mid_env t)"
  by (simp add: random_env_def is_random_def mid_env_def)

lemma random_clock_envs: "list_all random_env (clock_envs t0 n)"
  by (simp add: clock_envs_def list_all_iff random_mid_env)

subsection \<open>Length and order of the window\<close>

lemma length_window_ticks:
  "live k st \<Longrightarrow> length (historyData st) \<le> MAX_DATA_POINTS \<Longrightarrow>
   length (historyData (ticks k st envs)) = min (length (historyData st) + length envs) MAX_DATA_POINTS"
  by (simp add: window_ticks slice_last_length length_generated min.commute)

lemma map_slice_last: "map f (slice_last n xs) = slice_last n (map f xs)"
  by (simp add: slice_last_def drop_map)

lemma timestamps_window_ticks:
  "live k st \<Longrightarrow> length (historyData st) \<le> MAX_DATA_POINTS \<Longrightarrow>
   map timestamp (historyData (ticks k st envs)) =
     slice_last MAX_DATA_POINTS (map timestamp (historyData st) @ map now envs)"
  by (simp add: window_ticks map_slice_last timestamp_generated)

lemma sorted_window_ticks:
  "live k st \<Longrightarrow> length (historyData st) \<le> MAX_DATA_POINTS \<Longrightarrow>
   sorted (map timestamp (historyData st) @ map now envs) \<Longrightarrow>
   sorted (map timestamp (historyData (ticks k st envs)))"
  unfolding timestamps_window_ticks slice_last_def by (rule sorted_wrt_drop)

lemma tick_below_capacity:
  "live k st \<Longrightarrow> length (historyData st) < MAX_DATA_POINTS \<Longrightarrow>
   historyData (tick k env st) =
     historyData st @ [snd (generateNewDataPoint (tickCount (closures st ! k) + 1) (prevValues st) env)]"
  using tick_live [of k st env] by (simp add: slice_last_def)

lemma tick_at_capacity:
  "live k st \<Longrightarrow> length (historyData st) = MAX_DATA_POINTS \<Longrightarrow>
   historyData (tick k env st) =
     tl (historyData st) @ [snd (generateNewDataPoint (tickCount (closures st ! k) + 1) (prevValues st) env)]"
  using tick_live [of k st env]
  by (cases "historyData st") (simp_all add: slice_last_def MAX_DATA_POINTS_def)

lemma first_after_150:
  assumes "live k st" and "historyData st = []" and "length envs = 150"
  shows "timestamp (hd (historyData (ticks k st envs))) = now (envs ! 50)"
proof -
  have le: "length (historyData st) \<le> MAX_DATA_POINTS" using assms(2) by simp
  have n: "length (historyData (ticks k st envs)) = 100"
    using length_window_ticks [OF assms(1) le, of envs] assms(2,3) by (simp add: MAX_DATA_POINTS_def)
  then have ne: "historyData (ticks k st envs) \<noteq> []" by auto
  have "timestamp (hd (historyData (ticks k st envs))) = hd (map timestamp (historyData (ticks k st envs)))"
    using ne by (simp add: hd_map)
  also have "\<dots> = hd (drop 50 (map now envs))"
    using timestamps_window_ticks [OF assms(1) le, of envs] assms(2,3)
    by (simp add: slice_last_def MAX_DATA_POINTS_def)
  also have "\<dots> = map now envs ! 50"
    using assms(3) by (simp add: hd_drop_conv_nth)
  also have "\<dots> = now (envs ! 50)" using assms(3) by simp
  finally show ?thesis .
qed

lemma length_initialData: "length (initialData data) = min 50 (length data)"
  by (simp add: initialData_def slice_last_length)

lemma window_bounded_step:
  assumes "length (historyData st) \<le> MAX_DATA_POINTS"
  shows "length (historyData (step st e)) \<le> MAX_DATA_POINTS"
proof (cases e)
  case (Tick k env)
  then show ?thesis
    using assms by (simp add: tick_def Let_def slice_last_length split: prod.splits)
next
  case (SeedArrives k res)
  have "length (initialData data) \<le> MAX_DATA_POINTS" for data
    by (simp add: length_initialData MAX_DATA_POINTS_def)
  then show ?thesis
    using assms SeedArrives by (cases res) (simp_all add: seed_arrives_def Let_def)
next
  case RangeChange
  then show ?thesis by (simp add: reset_effect_def)
next
  case SubjectChange
  then show ?thesis using assms by (simp add: run_effect_def cleanup_def)
next
  case Unmount
  then show ?thesis using assms by (simp add: cleanup_def)
qed

lemma window_bounded_exec:
  "length (historyData st) \<le> MAX_DATA_POINTS \<Longrightarrow>
   length (historyData (exec st evs)) \<le> MAX_DATA_POINTS"
  by (induction evs arbitrary: st) (simp_all add: exec_def window_bounded_step)

lemma window_bounded_reachable: "length (historyData (exec mount evs)) \<le> MAX_DATA_POINTS"
  by (rule window_bounded_exec) (simp add: mount_simps)

lemma now_clock_envs: "map now (clock_envs t0 n) = map (\<lambda>i. t0 + 5000 * int i) [0 ..< n]"
  by (simp add: clock_envs_def mid_env_def)

lemma sorted_clock_envs: "sorted (map now (clock_envs t0 n))"
  unfolding now_clock_envs sorted_map
  by (rule sorted_wrt_mono_rel [OF _ sorted_wrt_upt]) simp

lemma length_clock_envs: "length (clock_envs t0 n) = n"
  by (simp add: clock_envs_def)

lemma nth_clock_envs: "i < n \<Longrightarrow> clock_envs t0 n ! i = mid_env (t0 + 5000 * int i)"
  by (simp add: clock_envs_def)

subsection \<open>Seeding and the fallback\<close>

lemma slice_last_nonempty:
  assumes "xs \<noteq> []" and "0 < n"
  shows "slice_last n xs \<noteq> []"
proof -
  have "0 < length xs" using assms(1) by simp
  then have "length xs - n < length xs" using assms(2) by arith
  then show ?thesis by (simp add: slice_last_def)
qed

lemma initialData_nonempty: "data \<noteq> [] \<Longrightarrow> initialData data \<noteq> []"
  by (simp add: initialData_def slice_last_nonempty)

lemma seed_live:
  "live k st \<Longrightarrow> data \<noteq> [] \<Longrightarrow>
   historyData (seed_arrives k (JsonArray data) st) = initialData data
   \<and> prevValues (seed_arrives k (JsonArray data) st) = prev_of (last (initialData data))
   \<and> closures (seed_arrives k (JsonArray data) st) = closures st"
  using initialData_nonempty [of data]
  by (simp add: seed_arrives_def live_def Let_def)

lemma initialData_single: "initialData [d] = [convert d]"
  by (simp add: initialData_def slice_last_def)

lemma mock_length: "length (combinedData [] t rnd) = 20"
  by (simp add: combinedData_def)

lemma mock_point_cong:
  "rnd (5 * i) = rnd' (5 * i) \<Longrightarrow> rnd (5 * i + 1) = rnd' (5 * i + 1) \<Longrightarrow>
   rnd (5 * i + 2) = rnd' (5 * i + 2) \<Longrightarrow> rnd (5 * i + 3) = rnd' (5 * i + 3) \<Longrightarrow>
   rnd (5 * i + 4) = rnd' (5 * i + 4) \<Longrightarrow> mock_point t rnd i = mock_point t rnd' i"
  by (simp add: mock_point_def)

subsection \<open>Runs of the streaming effect\<close>

lemma exec_Nil: "exec st [] = st"
  by (simp add: exec_def)

lemma exec_Cons: "exec st (e # evs) = exec (step st e) evs"
  by (simp add: exec_def)

lemma closures_tick:
  "closures (tick k env st) = closures st
   \<or> (k < length (closures st)
       \<and> closures (tick k env st) =
           (closures st)[k := (closures st ! k)\<lparr>tickCount := tickCount (closures st ! k) + 1\<rparr>])"
  by (simp add: tick_def Let_def split: prod.splits)

lemma closures_seed: "closures (seed_arrives k res st) = closures st"
  by (cases res) (simp_all add: seed_arrives_def Let_def)

lemma stale_tick: "stale k st \<Longrightarrow> stale k (tick j env st)"
  using closures_tick [of j env st]
  by (auto simp: stale_def nth_list_update split: if_splits)

lemma stale_seed: "stale k st \<Longrightarrow> stale k (seed_arrives j res st)"
  by (simp add: stale_def closures_seed)

lemma stale_cleanup: "stale k st \<Longrightarrow> stale k (cleanup st)"
  by (auto simp: stale_def cleanup_def nth_list_update)

lemma stale_run_effect: "stale k st \<Longrightarrow> stale k (run_effect st)"
  by (auto simp: stale_def run_effect_def nth_append)

lemma stale_reset_effect: "stale k st \<Longrightarrow> stale k (reset_effect st)"
  by (simp add: stale_def reset_effect_def)

lemma stale_step: "stale k st \<Longrightarrow> stale k (step st e)"
  by (cases e) (simp_all add: stale_tick stale_seed stale_cleanup stale_run_effect stale_reset_effect)

lemma stale_exec: "stale k st \<Longrightarrow> stale k (exec st evs)"
  by (induction evs arbitrary: st) (simp_all add: exec_Nil exec_Cons stale_step)

lemma seed_stale: "stale k st \<Longrightarrow> seed_arrives k res st = st"
  by (cases res) (simp_all add: seed_arrives_def stale_def)

lemma old_runs_down_iff:
  "old_runs_down st = (\<forall>i. i + 1 < length (closures st) \<longrightarrow> \<not> isMounted (closures st ! i))"
proof -
  have "(\<forall>c\<in>set (butlast (closures st)). \<not> isMounted c)
      = (\<forall>i<length (butlast (closures st)). \<not> isMounted (butlast (closures st) ! i))"
    by (simp add: all_set_conv_all_nth)
  also have "\<dots> = (\<forall>i. i + 1 < length (closures st) \<longrightarrow> \<not> isMounted (closures st ! i))"
    by (auto simp: nth_butlast)
  finally show ?thesis by (simp add: old_runs_down_def list_all_iff)
qed

lemma old_tick: "old_runs_down st \<Longrightarrow> old_runs_down (tick j env st)"
  using closures_tick [of j env st]
  by (auto simp: old_runs_down_iff nth_list_update split: if_splits)

lemma old_seed: "old_runs_down st \<Longrightarrow> old_runs_down (seed_arrives j res st)"
  by (simp add: old_runs_down_iff closures_seed)

lemma old_cleanup: "old_runs_down st \<Longrightarrow> old_runs_down (cleanup st)"
  by (auto simp: old_runs_down_iff cleanup_def nth_list_update)

lemma all_down_cleanup:
  "old_runs_down st \<Longrightarrow> i < length (closures st) \<Longrightarrow> stale i (cleanup st)"
proof -
  assume o: "old_runs_down st" and i: "i < length (closures st)"
  then have ne: "closures st \<noteq> []" by auto
  show ?thesis
  proof (cases "i + 1 < length (closures st)")
    case True
    then have "\<not> isMounted (closures st ! i)" using o by (simp add: old_runs_down_iff)
    then show ?thesis using True i ne by (simp add: stale_def cleanup_def)
  next
    case False
    then have "i = length (closures st) - 1" using i by arith
    then show ?thesis using i ne by (simp add: stale_def cleanup_def)
  qed
qed

lemma old_run_effect_cleanup: "old_runs_down st \<Longrightarrow> old_runs_down (run_effect (cleanup st))"
proof -
  assume o: "old_runs_down st"
  have len: "length (closures (cleanup st)) = length (closures st)"
    by (simp add: cleanup_def)
  have "\<not> isMounted (closures (run_effect (cleanup st)) ! i)"
    if "i + 1 < length (closures (run_effect (cleanup st)))" for i
  proof -
    have i: "i < length (closures st)" using that len by (simp add: run_effect_def)
    have "stale i (cleanup st)" using o i by (rule all_down_cleanup)
    then have "stale i (run_effect (cleanup st))" by (rule stale_run_effect)
    then show ?thesis by (simp add: stale_def)
  qed
  then show ?thesis by (simp add: old_runs_down_iff)
qed

lemma old_reset_effect: "old_runs_down st \<Longrightarrow> old_runs_down (reset_effect st)"
  by (simp add: old_runs_down_def reset_effect_def)

lemma old_step: "old_runs_down st \<Longrightarrow> old_runs_down (step st e)"
  by (cases e) (simp_all add: old_tick old_seed old_cleanup old_run_effect_cleanup old_reset_effect)

lemma old_exec: "old_runs_down st \<Longrightarrow> old_runs_down (exec st evs)"
  by (induction evs arbitrary: st) (simp_all add: exec_Nil exec_Cons old_step)

lemma old_mount: "old_runs_down mount"
  by (simp add: old_runs_down_def mount_simps)

lemma stale_after_ends_run:
  assumes "old_runs_down st" and "k < length (closures st)" and "ends_run e"
  shows "stale k (step st e)"
proof -
  have c: "stale k (cleanup st)" using assms(1,2) by (rule all_down_cleanup)
  show ?thesis
    using assms(3) c
    by (cases e) (simp_all add: stale_run_effect stale_reset_effect)
qed

lemma seed_after_ends_run:
  assumes "k < length (closures (exec mount evs))" and "ends_run e"
  shows "seed_arrives k res (exec (step (exec mount evs) e) evs') = exec (step (exec mount evs) e) evs'"
proof -
  have "old_runs_down (exec mount evs)" using old_mount by (rule old_exec)
  then have "stale k (step (exec mount evs) e)" using assms by (rule stale_after_ends_run)
  then have "stale k (exec (step (exec mount evs) e) evs')" by (rule stale_exec)
  then show ?thesis by (rule seed_stale)
qed

lemma no_seed_unchanged: "no_seed res \<Longrightarrow> seed_arrives k res st = st"
  by (cases res) (simp_all add: seed_arrives_def)

lemma range_change_simps:
  "historyData (step st RangeChange) = []"
  "prevValues (step st RangeChange) = default_prev"
  "closures (step st RangeChange) = closures (cleanup st) @ [\<lparr>isMounted = True, tickCount = 0\<rparr>]"
  by (simp_all add: reset_effect_def run_effect_def)

lemma length_closures_cleanup: "length (closures (cleanup st)) = length (closures st)"
  by (simp add: cleanup_def)

lemma live_after_range_change:
  "live (length (closures st)) (step st RangeChange)
   \<and> tickCount (closures (step st RangeChange) ! length (closures st)) = 0"
  using length_closures_cleanup [of st]
  by (simp add: live_def range_change_simps nth_append del: step.simps)

subsection \<open>Seeds, resets and failed requests\<close>

lemma seed_after_ticks:
  assumes "live k st" and "data \<noteq> []"
  shows "historyData (seed_arrives k (JsonArray data) (ticks k st envs)) = initialData data
    \<and> prevValues (seed_arrives k (JsonArray data) (ticks k st envs)) = prev_of (last (initialData data))"
proof -
  have "live k (ticks k st envs)" using assms(1) by (rule live_ticks)
  then show ?thesis using assms(2) seed_live by blast
qed

lemma window_after_range_change:
  "historyData (ticks (length (closures st)) (step st RangeChange) envs)
     = slice_last MAX_DATA_POINTS (generated 0 default_prev envs)"
proof -
  have l: "live (length (closures st)) (step st RangeChange)"
    and c: "tickCount (closures (step st RangeChange) ! length (closures st)) = 0"
    using live_after_range_change [of st] by simp_all
  have n: "length (historyData (step st RangeChange)) \<le> MAX_DATA_POINTS"
    by (simp add: range_change_simps del: step.simps)
  show ?thesis
    unfolding window_ticks [OF l n] c by (simp add: range_change_simps del: step.simps)
qed

lemma length_closures_step: "length (closures st) \<le> length (closures (step st e))"
proof (cases e)
  case (Tick j env)
  then show ?thesis using closures_tick [of j env st] by auto
next
  case (SeedArrives j res)
  then show ?thesis by (simp add: closures_seed)
qed (simp_all add: reset_effect_def run_effect_def length_closures_cleanup)

lemma length_closures_exec: "length (closures st) \<le> length (closures (exec st evs))"
proof (induction evs arbitrary: st)
  case Nil
  then show ?case by (simp add: exec_Nil)
next
  case (Cons e evs)
  show ?case
    using length_closures_step [of st e] Cons [of "step st e"] by (simp add: exec_Cons)
qed

lemma closures_exec_mount: "0 < length (closures (exec mount evs))"
proof -
  have "length (closures mount) = 1" by (simp add: mount_simps)
  then show ?thesis using length_closures_exec [of mount evs] by linarith
qed

lemma untouched_by_effects:
  "historyData (cleanup st) = historyData st" "prevValues (cleanup st) = prevValues st"
  "historyData (run_effect st) = historyData st" "prevValues (run_effect st) = prevValues st"
  by (simp_all add: cleanup_def run_effect_def)

section \<open>The claims\<close>

text \<open>
  C3. Every point that a tick generates has its bounded metrics inside their ranges,
  from any carry state, for any random draws and any value of the tick counter: Torque in
  \<open>[25, 55]\<close>, Temperature in \<open>[290, 315]\<close>, Speed in \<open>[2650, 2950]\<close> and Vibration in
  \<open>[0.25, 0.85]\<close>. In the window after any number of ticks of a live run, the points
  these ticks appended (the last \<open>length envs\<close> ones) are all inside the ranges.
\<close>

theorem tick_points_within_ranges:
  "within_ranges (snd (generateNewDataPoint tc pv env))
   \<and> (live k st \<longrightarrow> list_all within_ranges (slice_last (length envs) (historyData (ticks k st envs))))"
proof (intro conjI impI)
  show "within_ranges (snd (generateNewDataPoint tc pv env))"
    by (rule point_within_ranges)
next
  assume l: "live k st"
  show "list_all within_ranges (slice_last (length envs) (historyData (ticks k st envs)))"
    unfolding tick_points [OF l]
    by (rule list_all_slice_last) (rule generated_within_ranges)
qed

theorem tick_points_within_ranges_witness:
  "live 0 mount
   \<and> list_all within_ranges
        (slice_last (length [\<lparr>now = 1700000000000, rnd_Torque = 0.5, rnd_Temperature = 0.25,
            rnd_Speed = 0.75, rnd_Vibration = 0, rnd_wear = 0.5\<rparr>])
          (historyData (ticks 0 mount
            [\<lparr>now = 1700000000000, rnd_Torque = 0.5, rnd_Temperature = 0.25,
              rnd_Speed = 0.75, rnd_Vibration = 0, rnd_wear = 0.5\<rparr>])))"
proof -
  have l: "live 0 mount"
    by (simp add: live_def mount_def reset_effect_def run_effect_def)
  show ?thesis
    using l tick_points_within_ranges [where k = 0 and st = mount]
    by blast
qed

text \<open>
  C7, as amended. A tick of a live run replaces the carry state with the new values as
  computed, unrounded, and appends a point that holds these values rounded for display:
  Torque, Temperature and wear to one decimal, Speed to an integer, Vibration to two
  decimals. Each metric of the appended point is therefore the rounding of the value
  now in the carry state, not that value itself.
\<close>

theorem point_rounds_carry_state:
  "live k st \<Longrightarrow>
   prevValues (tick k env st) =
     fst (generateNewDataPoint (tickCount (closures st ! k) + 1) (prevValues st) env)
   \<and> historyData (tick k env st) \<noteq> []
   \<and> prev_of (last (historyData (tick k env st))) = rounded (prevValues (tick k env st))"
  using tick_appends [of k st env] tick_live [of k st env] point_is_rounded_carry
  by simp

theorem point_rounds_carry_state_witness:
  "live 0 mount
   \<and> historyData (tick 0 (mid_env 1700000000000) mount) \<noteq> []
   \<and> prev_of (last (historyData (tick 0 (mid_env 1700000000000) mount)))
       = rounded (prevValues (tick 0 (mid_env 1700000000000) mount))"
  using live_mount point_rounds_carry_state [OF live_mount, of "mid_env 1700000000000"]
  by simp

text \<open>
  C7 as stated fails at the first tick after mounting with all draws at \<open>1 / 2\<close>: the
  carry state holds the speed \<open>2800 + 15 * sin 0.3\<close>, which lies strictly between 2804
  and 2805, while the appended point holds an integer.
\<close>

theorem point_differs_from_carry_state:
  "Speed (last (historyData (tick 0 (mid_env 1700000000000) mount)))
     \<noteq> pv_Speed (prevValues (tick 0 (mid_env 1700000000000) mount))"
proof -
  let ?c = "pv_Speed (fst (generateNewDataPoint 1 default_prev (mid_env 1700000000000)))"
  have c: "2804 < ?c" "?c < 2805"
    unfolding first_speed using sin_03 by linarith+
  have "Speed (last (historyData (tick 0 (mid_env 1700000000000) mount))) = toFixed 0 ?c"
    using tick_appends [OF live_mount, of "mid_env 1700000000000"]
    by (simp add: mount_simps point_fields)
  moreover have "pv_Speed (prevValues (tick 0 (mid_env 1700000000000) mount)) = ?c"
    using tick_live [OF live_mount, of "mid_env 1700000000000"] by (simp add: mount_simps)
  moreover have "toFixed 0 ?c \<noteq> ?c"
  proof
    assume e: "toFixed 0 ?c = ?c"
    have "toFixed 0 ?c = of_int \<lfloor>?c + 1 / 2\<rfloor>" using c by (simp add: toFixed_def)
    then have "?c = of_int \<lfloor>?c + 1 / 2\<rfloor>" using e by simp
    then obtain n :: int where n: "?c = of_int n" ..
    have "2804 < n" "n < 2805" using c unfolding n by linarith+
    then show False by simp
  qed
  ultimately show ?thesis by simp
qed

text \<open>
  C2, as amended. Every point that a tick generates has its wear percentage in
  \<open>[5, 95]\<close>, and with draws in \<open>[0, 1)\<close> the wear is non-decreasing across the
  consecutive tick-generated points of the window (the whole window when it was empty
  before the ticks). Points seeded from the history service keep the wear the service
  returned, which the tick does not bound.
\<close>

theorem tick_points_wear:
  "wear_in_range (snd (generateNewDataPoint tc pv env))
   \<and> (live k st \<and> list_all random_env envs \<longrightarrow>
        list_all wear_in_range (slice_last (length envs) (historyData (ticks k st envs)))
        \<and> sorted (map current_tool_wear_pct
            (slice_last (length envs) (historyData (ticks k st envs)))))
   \<and> (live k st \<and> list_all random_env envs \<and> historyData st = [] \<longrightarrow>
        list_all wear_in_range (historyData (ticks k st envs))
        \<and> sorted (map current_tool_wear_pct (historyData (ticks k st envs))))"
proof (intro conjI impI)
  show "wear_in_range (snd (generateNewDataPoint tc pv env))"
    by (rule point_wear_in_range)
next
  assume a: "live k st \<and> list_all random_env envs"
  then have l: "live k st" and r: "list_all random_env envs" by simp_all
  show "list_all wear_in_range (slice_last (length envs) (historyData (ticks k st envs)))"
    unfolding tick_points [OF l]
    by (rule list_all_slice_last) (rule generated_wear_in_range)
  show "sorted (map current_tool_wear_pct (slice_last (length envs) (historyData (ticks k st envs))))"
    unfolding tick_points [OF l]
    by (rule sorted_slice_last) (rule generated_wear_sorted [OF r])
next
  assume a: "live k st \<and> list_all random_env envs \<and> historyData st = []"
  then have l: "live k st" and r: "list_all random_env envs" and h: "historyData st = []"
    by simp_all
  have w: "historyData (ticks k st envs) =
     slice_last MAX_DATA_POINTS (generated (tickCount (closures st ! k)) (prevValues st) envs)"
    using window_ticks [OF l, of envs] h by simp
  show "list_all wear_in_range (historyData (ticks k st envs))"
    unfolding w by (rule list_all_slice_last) (rule generated_wear_in_range)
  show "sorted (map current_tool_wear_pct (historyData (ticks k st envs)))"
    unfolding w by (rule sorted_slice_last) (rule generated_wear_sorted [OF r])
qed

theorem tick_points_wear_witness:
  "live 0 mount \<and> list_all random_env (clock_envs 1700000000000 3) \<and> historyData mount = []
   \<and> length (clock_envs 1700000000000 3) = 3
   \<and> list_all wear_in_range (historyData (ticks 0 mount (clock_envs 1700000000000 3)))
   \<and> sorted (map current_tool_wear_pct (historyData (ticks 0 mount (clock_envs 1700000000000 3))))
   \<and> sorted (map current_tool_wear_pct
        (slice_last 3 (historyData (ticks 0 mount (clock_envs 1700000000000 3)))))"
  using tick_points_wear [where k = 0 and st = mount and envs = "clock_envs 1700000000000 3"]
    live_mount random_clock_envs [of 1700000000000 3] mount_simps(1)
  by (simp add: clock_envs_def)

text \<open>
  C2 as stated fails on a window seeded with one record of wear 99 and advanced by one
  tick: the window then holds the wear values 99 and 95, which exceed 95 and decrease.
\<close>

theorem seeded_wear_exceeds_and_drops:
  "map current_tool_wear_pct
     (historyData (exec mount
        [SeedArrives 0 (JsonArray
           [\<lparr>d_time = 1699999995000, d_Torque = Some 42, d_Temperature = Some 301,
             d_Speed = Some 2790, d_Vibration = Some (1 / 2), d_tool_wear_pct = Some 99\<rparr>]),
         Tick 0 (mid_env 1700000000000)]))
   = [99, 95]"
proof -
  let ?d = "\<lparr>d_time = 1699999995000, d_Torque = Some 42, d_Temperature = Some 301,
             d_Speed = Some 2790, d_Vibration = Some (1 / 2), d_tool_wear_pct = Some 99\<rparr>"
  let ?st = "seed_arrives 0 (JsonArray [?d]) mount"
  have s: "historyData ?st = [convert ?d]" "prevValues ?st = prev_of (convert ?d)"
    "closures ?st = closures mount"
    by (simp_all add: seed_arrives_def mount_simps initialData_def slice_last_def Let_def)
  have l: "live 0 ?st" using live_mount by (simp add: live_def s)
  have w: "pv_current_tool_wear_pct (prev_of (convert ?d)) = 99"
    by (simp add: prev_of_def convert_def js_or_def)
  have "0 \<le> 0.2 + rnd_wear (mid_env 1700000000000) * 0.4 + \<bar>sin (real 1 * 0.3) * 0.5\<bar> * 0.3"
    by (simp add: mid_env_def)
  then have "min 95 (max 5 (99 + (0.2 + rnd_wear (mid_env 1700000000000) * 0.4
      + \<bar>sin (real 1 * 0.3) * 0.5\<bar> * 0.3))) = (95::real)"
    by linarith
  then have c: "pv_current_tool_wear_pct
      (fst (generateNewDataPoint 1 (prev_of (convert ?d)) (mid_env 1700000000000))) = 95"
    unfolding generateNewDataPoint_def Let_def fst_conv prev_values.select_convs w .
  have p: "current_tool_wear_pct
      (snd (generateNewDataPoint 1 (prev_of (convert ?d)) (mid_env 1700000000000))) = 95"
    unfolding point_fields c by (rule toFixed_fix)
  have "historyData (tick 0 (mid_env 1700000000000) ?st)
      = [convert ?d, snd (generateNewDataPoint 1 (prev_of (convert ?d)) (mid_env 1700000000000))]"
    using tick_live [OF l, of "mid_env 1700000000000"]
    by (simp add: s mount_simps slice_last_def MAX_DATA_POINTS_def)
  then show ?thesis
    using p by (simp add: exec_def convert_def js_or_def)
qed

text \<open>
  C1, as amended. The window never holds more than 100 points. From any state of a live
  run whose window holds \<open>N_seed\<close> points (a seed holds at most 50), \<open>N\<close> ticks leave a
  window of length \<open>min (N_seed + N) 100\<close>. The window is ordered by non-decreasing
  timestamp provided the points it held before, followed by the clock readings of the
  ticks, are so ordered: neither the seed nor the clock is sorted or checked by the
  component. A tick on a window below capacity appends its point; a tick on a full
  window drops exactly the oldest point and appends. After 150 ticks from an empty
  window the length is 100 and the first timestamp is the clock reading of the 51st
  tick.
\<close>

theorem window_length_order_eviction:
  "live k st \<Longrightarrow> length (historyData st) \<le> MAX_DATA_POINTS \<Longrightarrow>
   MAX_DATA_POINTS = 100
   \<and> length (historyData (exec mount evs)) \<le> MAX_DATA_POINTS
   \<and> length (initialData data) = min 50 (length data)
   \<and> length (historyData (ticks k st envs)) = min (length (historyData st) + length envs) MAX_DATA_POINTS
   \<and> (sorted (map timestamp (historyData st) @ map now envs) \<longrightarrow>
        sorted (map timestamp (historyData (ticks k st envs))))
   \<and> (length (historyData st) < MAX_DATA_POINTS \<longrightarrow>
        historyData (tick k env st) =
          historyData st
            @ [snd (generateNewDataPoint (tickCount (closures st ! k) + 1) (prevValues st) env)])
   \<and> (length (historyData st) = MAX_DATA_POINTS \<longrightarrow>
        historyData (tick k env st) =
          tl (historyData st)
            @ [snd (generateNewDataPoint (tickCount (closures st ! k) + 1) (prevValues st) env)])
   \<and> (historyData st = [] \<and> length envs = 150 \<longrightarrow>
        length (historyData (ticks k st envs)) = 100
        \<and> timestamp (hd (historyData (ticks k st envs))) = now (envs ! 50))"
proof (intro conjI impI)
  assume l: "live k st" and n: "length (historyData st) \<le> MAX_DATA_POINTS"
  show "MAX_DATA_POINTS = 100" by (rule MAX_DATA_POINTS_def)
  show "length (historyData (exec mount evs)) \<le> MAX_DATA_POINTS"
    by (rule window_bounded_reachable)
  show "length (initialData data) = min 50 (length data)" by (rule length_initialData)
  show "length (historyData (ticks k st envs)) = min (length (historyData st) + length envs) MAX_DATA_POINTS"
    using l n by (rule length_window_ticks)
  show "sorted (map timestamp (historyData (ticks k st envs)))"
    if "sorted (map timestamp (historyData st) @ map now envs)"
    using l n that by (rule sorted_window_ticks)
  show "historyData (tick k env st) =
          historyData st
            @ [snd (generateNewDataPoint (tickCount (closures st ! k) + 1) (prevValues st) env)]"
    if "length (historyData st) < MAX_DATA_POINTS"
    using l that by (rule tick_below_capacity)
  show "historyData (tick k env st) =
          tl (historyData st)
            @ [snd (generateNewDataPoint (tickCount (closures st ! k) + 1) (prevValues st) env)]"
    if "length (historyData st) = MAX_DATA_POINTS"
    using l that by (rule tick_at_capacity)
  show "length (historyData (ticks k st envs)) = 100"
    if "historyData st = [] \<and> length envs = 150"
    using length_window_ticks [OF l n, of envs] that by (simp add: MAX_DATA_POINTS_def)
  show "timestamp (hd (historyData (ticks k st envs))) = now (envs ! 50)"
    if "historyData st = [] \<and> length envs = 150"
    using first_after_150 [OF l] that by simp
qed

theorem window_length_order_eviction_witness:
  "live 0 mount \<and> length (historyData mount) \<le> MAX_DATA_POINTS
   \<and> sorted (map timestamp (historyData mount) @ map now (clock_envs 1700000000000 150))
   \<and> length (clock_envs 1700000000000 150) = 150
   \<and> length (historyData (ticks 0 mount (clock_envs 1700000000000 150))) = 100
   \<and> sorted (map timestamp (historyData (ticks 0 mount (clock_envs 1700000000000 150))))
   \<and> timestamp (hd (historyData (ticks 0 mount (clock_envs 1700000000000 150)))) = 1700000250000
   \<and> historyData (tick 0 (mid_env 1700000750000) mount) =
       [snd (generateNewDataPoint 1 default_prev (mid_env 1700000750000))]
   \<and> historyData (tick 0 (mid_env 1700000750000) (ticks 0 mount (clock_envs 1700000000000 150))) =
       tl (historyData (ticks 0 mount (clock_envs 1700000000000 150)))
         @ [snd (generateNewDataPoint
              (tickCount (closures (ticks 0 mount (clock_envs 1700000000000 150)) ! 0) + 1)
              (prevValues (ticks 0 mount (clock_envs 1700000000000 150)))
              (mid_env 1700000750000))]"
proof -
  let ?envs = "clock_envs 1700000000000 150"
  let ?full = "ticks 0 mount ?envs"
  have h: "length (historyData mount) \<le> MAX_DATA_POINTS" by (simp add: mount_simps)
  have s: "sorted (map timestamp (historyData mount) @ map now ?envs)"
    using sorted_clock_envs [of 1700000000000 150] by (simp add: mount_simps)
  have e: "historyData mount = [] \<and> length ?envs = 150"
    by (simp add: mount_simps length_clock_envs)
  have m: "mid_env 1700000250000 = ?envs ! 50"
    by (simp add: nth_clock_envs)
  note a = window_length_order_eviction [OF live_mount h,
      where envs = ?envs and env = "mid_env 1700000750000"]
  have full: "length (historyData ?full) = 100"
    "sorted (map timestamp (historyData ?full))"
    "timestamp (hd (historyData ?full)) = now (?envs ! 50)"
    using a s e by blast+
  have one: "historyData (tick 0 (mid_env 1700000750000) mount) =
       [snd (generateNewDataPoint 1 default_prev (mid_env 1700000750000))]"
    using a by (simp add: mount_simps MAX_DATA_POINTS_def)
  have lf: "live 0 ?full" using live_mount by (rule live_ticks)
  have hf: "length (historyData ?full) \<le> MAX_DATA_POINTS" "length (historyData ?full) = MAX_DATA_POINTS"
    using full(1) by (simp_all add: MAX_DATA_POINTS_def)
  note b = window_length_order_eviction [OF lf hf(1),
      where envs = "[]" and env = "mid_env 1700000750000"]
  have ev: "historyData (tick 0 (mid_env 1700000750000) ?full) =
       tl (historyData ?full)
         @ [snd (generateNewDataPoint (tickCount (closures ?full ! 0) + 1) (prevValues ?full)
              (mid_env 1700000750000))]"
    using b hf(2) by blast
  have t: "now (?envs ! 50) = 1700000250000"
    unfolding m [symmetric] by (simp add: mid_env_def)
  show ?thesis
    using live_mount h s e full one ev t by simp
qed

text \<open>
  C1 as stated fails on a seed that the history service returns newest first: the two
  seeded points keep their order, so the window is not sorted, before and after a tick.
\<close>

theorem unsorted_seed_stays_unsorted:
  "\<not> sorted (map timestamp
     (historyData (exec mount
        [SeedArrives 0 (JsonArray
           [\<lparr>d_time = 1700000060000, d_Torque = Some 42, d_Temperature = Some 301,
             d_Speed = Some 2790, d_Vibration = Some (1 / 2), d_tool_wear_pct = Some 40\<rparr>,
            \<lparr>d_time = 1700000000000, d_Torque = Some 41, d_Temperature = Some 300,
             d_Speed = Some 2800, d_Vibration = Some (1 / 2), d_tool_wear_pct = Some 39\<rparr>]),
         Tick 0 (mid_env 1700000120000)])))"
proof -
  let ?a = "\<lparr>d_time = 1700000060000, d_Torque = Some 42, d_Temperature = Some 301,
             d_Speed = Some 2790, d_Vibration = Some (1 / 2), d_tool_wear_pct = Some 40\<rparr>"
  let ?b = "\<lparr>d_time = 1700000000000, d_Torque = Some 41, d_Temperature = Some 300,
             d_Speed = Some 2800, d_Vibration = Some (1 / 2), d_tool_wear_pct = Some 39\<rparr>"
  let ?st = "seed_arrives 0 (JsonArray [?a, ?b]) mount"
  have s: "historyData ?st = [convert ?a, convert ?b]" "closures ?st = closures mount"
    by (simp_all add: seed_arrives_def mount_simps initialData_def slice_last_def Let_def)
  have l: "live 0 ?st" using live_mount by (simp add: live_def s)
  have n: "length (historyData ?st) \<le> MAX_DATA_POINTS" by (simp add: s MAX_DATA_POINTS_def)
  have "map timestamp (historyData (ticks 0 ?st [mid_env 1700000120000]))
      = [1700000060000, 1700000000000, 1700000120000]"
    unfolding timestamps_window_ticks [OF l n]
    by (simp add: s convert_def mid_env_def slice_last_def MAX_DATA_POINTS_def)
  then show ?thesis by (simp add: ticks_def exec_def)
qed

text \<open>
  C4, as amended. Whenever the window is empty, \<^verbatim>\<open>combinedData\<close> supplies a fallback
  of exactly twenty mock points, never an empty list, and it is a total function (no
  exception); a non-empty window is passed through unchanged. The fallback is a function
  of the clock reading and of the hundred random draws made while building it: two
  evaluations give the same sequence when they read the same clock and draw the same
  numbers.
\<close>

theorem fallback_when_empty:
  "length (combinedData [] t rnd) = 20
   \<and> combinedData [] t rnd \<noteq> []
   \<and> (hist \<noteq> [] \<longrightarrow> combinedData hist t rnd = hist)
   \<and> ((\<forall>j<100. rnd j = rnd' j) \<longrightarrow> combinedData [] t rnd = combinedData [] t rnd')"
proof (intro conjI impI)
  show n: "length (combinedData [] t rnd) = 20" by (rule mock_length)
  then show "combinedData [] t rnd \<noteq> []" by auto
  show "combinedData hist t rnd = hist" if "hist \<noteq> []"
    using that by (simp add: combinedData_def)
  show "combinedData [] t rnd = combinedData [] t rnd'" if e: "\<forall>j<100. rnd j = rnd' j"
  proof -
    have "mock_point t rnd i = mock_point t rnd' i" if "i < 20" for i
      using that e by (intro mock_point_cong) simp_all
    then show ?thesis by (simp add: combinedData_def)
  qed
qed

theorem fallback_when_empty_witness:
  "length (combinedData [] 1700000000000 (draws_const (1 / 2))) = 20
   \<and> combinedData [] 1700000000000 (draws_const (1 / 2)) \<noteq> []
   \<and> combinedData [snd (generateNewDataPoint 1 default_prev (mid_env 1700000000000))]
        1700000005000 (draws_const (1 / 2))
       = [snd (generateNewDataPoint 1 default_prev (mid_env 1700000000000))]
   \<and> combinedData [] 1700000000000 (draws_const (1 / 2))
       = combinedData [] 1700000000000 (\<lambda>j. if j < 100 then 1 / 2 else 0)"
proof -
  let ?p = "snd (generateNewDataPoint 1 default_prev (mid_env 1700000000000))"
  note a = fallback_when_empty [of 1700000000000 "draws_const (1 / 2)" "[?p]"
      "\<lambda>j. if j < 100 then 1 / 2 else 0"]
  note b = fallback_when_empty [of 1700000005000 "draws_const (1 / 2)" "[?p]" "draws_const (1 / 2)"]
  have h: "\<forall>j<100. draws_const (1 / 2) j = (if j < 100 then 1 / 2 else (0::real))"
    by (simp add: draws_const_def)
  have "combinedData [] 1700000000000 (draws_const (1 / 2))
       = combinedData [] 1700000000000 (\<lambda>j. if j < 100 then 1 / 2 else 0)"
    using a h by blast
  moreover have "combinedData [?p] 1700000005000 (draws_const (1 / 2)) = [?p]"
    using b by blast
  moreover have "length (combinedData [] 1700000000000 (draws_const (1 / 2))) = 20"
    "combinedData [] 1700000000000 (draws_const (1 / 2)) \<noteq> []"
    using a by blast+
  ultimately show ?thesis by blast
qed

text \<open>
  C4 as stated fails: two evaluations on the same empty window and at the same clock
  reading, one drawing 0 and the other \<open>1 / 2\<close> from the random generator, produce
  different sequences (the first points differ in Vibration, \<open>0.4\<close> against \<open>0.55\<close>).
\<close>

theorem fallback_depends_on_draws:
  "combinedData [] 1700000000000 (draws_const 0) \<noteq> combinedData [] 1700000000000 (draws_const (1 / 2))"
proof
  assume "combinedData [] 1700000000000 (draws_const 0) = combinedData [] 1700000000000 (draws_const (1 / 2))"
  then have "Vibration (combinedData [] 1700000000000 (draws_const 0) ! 0)
      = Vibration (combinedData [] 1700000000000 (draws_const (1 / 2)) ! 0)"
    by simp
  then show False
    by (simp add: combinedData_def mock_point_def draws_const_def)
qed

text \<open>
  C9, as amended. The conversion of a history record keeps the timestamp, substitutes
  the default of a metric (Torque 40, Temperature 300, Speed 2800, Vibration 0.5, wear
  35) when the field is missing, and keeps a field that is present with a non-zero
  value. A non-empty batch arriving at a live run is never rejected: the window becomes
  the conversion of its last fifty records.
\<close>

theorem convert_keeps_nonzero_defaults_missing:
  "timestamp (convert d) = d_time d
   \<and> (d_Torque d = None \<longrightarrow> Torque (convert d) = 40)
   \<and> (d_Torque d = Some a \<and> a \<noteq> 0 \<longrightarrow> Torque (convert d) = a)
   \<and> (d_Temperature d = None \<longrightarrow> Temperature (convert d) = 300)
   \<and> (d_Temperature d = Some b \<and> b \<noteq> 0 \<longrightarrow> Temperature (convert d) = b)
   \<and> (d_Speed d = None \<longrightarrow> Speed (convert d) = 2800)
   \<and> (d_Speed d = Some c \<and> c \<noteq> 0 \<longrightarrow> Speed (convert d) = c)
   \<and> (d_Vibration d = None \<longrightarrow> Vibration (convert d) = 0.5)
   \<and> (d_Vibration d = Some v \<and> v \<noteq> 0 \<longrightarrow> Vibration (convert d) = v)
   \<and> (d_tool_wear_pct d = None \<longrightarrow> current_tool_wear_pct (convert d) = 35)
   \<and> (d_tool_wear_pct d = Some w \<and> w \<noteq> 0 \<longrightarrow> current_tool_wear_pct (convert d) = w)
   \<and> (live k st \<and> data \<noteq> [] \<longrightarrow>
        historyData (seed_arrives k (JsonArray data) st) = map convert (slice_last 50 data)
        \<and> length (historyData (seed_arrives k (JsonArray data) st)) = min 50 (length data)
        \<and> historyData (seed_arrives k (JsonArray data) st) \<noteq> [])"
proof -
  have fields: "timestamp (convert d) = d_time d
   \<and> (d_Torque d = None \<longrightarrow> Torque (convert d) = 40)
   \<and> (d_Torque d = Some a \<and> a \<noteq> 0 \<longrightarrow> Torque (convert d) = a)
   \<and> (d_Temperature d = None \<longrightarrow> Temperature (convert d) = 300)
   \<and> (d_Temperature d = Some b \<and> b \<noteq> 0 \<longrightarrow> Temperature (convert d) = b)
   \<and> (d_Speed d = None \<longrightarrow> Speed (convert d) = 2800)
   \<and> (d_Speed d = Some c \<and> c \<noteq> 0 \<longrightarrow> Speed (convert d) = c)
   \<and> (d_Vibration d = None \<longrightarrow> Vibration (convert d) = 0.5)
   \<and> (d_Vibration d = Some v \<and> v \<noteq> 0 \<longrightarrow> Vibration (convert d) = v)
   \<and> (d_tool_wear_pct d = None \<longrightarrow> current_tool_wear_pct (convert d) = 35)
   \<and> (d_tool_wear_pct d = Some w \<and> w \<noteq> 0 \<longrightarrow> current_tool_wear_pct (convert d) = w)"
    by (simp add: convert_def js_or_def)
  have batch: "live k st \<and> data \<noteq> [] \<longrightarrow>
        historyData (seed_arrives k (JsonArray data) st) = map convert (slice_last 50 data)
        \<and> length (historyData (seed_arrives k (JsonArray data) st)) = min 50 (length data)
        \<and> historyData (seed_arrives k (JsonArray data) st) \<noteq> []"
  proof
    assume "live k st \<and> data \<noteq> []"
    then have h: "historyData (seed_arrives k (JsonArray data) st) = initialData data"
      and n: "initialData data \<noteq> []"
      using seed_live [of k st data] initialData_nonempty [of data] by simp_all
    show "historyData (seed_arrives k (JsonArray data) st) = map convert (slice_last 50 data)
        \<and> length (historyData (seed_arrives k (JsonArray data) st)) = min 50 (length data)
        \<and> historyData (seed_arrives k (JsonArray data) st) \<noteq> []"
      unfolding h using n length_initialData [of data] by (simp add: initialData_def)
  qed
  show ?thesis using fields batch by blast
qed

theorem convert_keeps_nonzero_defaults_missing_witness:
  "live 0 mount
   \<and> historyData (seed_arrives 0 (JsonArray
        [\<lparr>d_time = 1700000000000, d_Torque = Some 42, d_Temperature = None, d_Speed = None,
          d_Vibration = None, d_tool_wear_pct = None\<rparr>,
         \<lparr>d_time = 1700000005000, d_Torque = None, d_Temperature = Some 301,
          d_Speed = Some 2790, d_Vibration = Some (3 / 5), d_tool_wear_pct = Some 41\<rparr>]) mount)
       = [\<lparr>timestamp = 1700000000000, Torque = 42, Temperature = 300, Speed = 2800,
           Vibration = 1 / 2, current_tool_wear_pct = 35\<rparr>,
          \<lparr>timestamp = 1700000005000, Torque = 40, Temperature = 301, Speed = 2790,
           Vibration = 3 / 5, current_tool_wear_pct = 41\<rparr>]"
proof -
  let ?d1 = "\<lparr>d_time = 1700000000000, d_Torque = Some 42, d_Temperature = None, d_Speed = None,
        d_Vibration = None, d_tool_wear_pct = None\<rparr>"
  let ?d2 = "\<lparr>d_time = 1700000005000, d_Torque = None, d_Temperature = Some 301,
          d_Speed = Some 2790, d_Vibration = Some (3 / 5), d_tool_wear_pct = Some 41\<rparr>"
  note t1 = convert_keeps_nonzero_defaults_missing
    [where d = ?d1 and a = 42 and k = 0 and st = mount and data = "[?d1, ?d2]"]
  note t2 = convert_keeps_nonzero_defaults_missing
    [where d = ?d2 and b = 301 and c = 2790 and v = "3 / 5" and w = 41]
  have f1: "timestamp (convert ?d1) = 1700000000000" "Torque (convert ?d1) = 42"
    "Temperature (convert ?d1) = 300" "Speed (convert ?d1) = 2800" "Vibration (convert ?d1) = 1 / 2"
    "current_tool_wear_pct (convert ?d1) = 35"
    using t1 by simp_all
  have f2: "timestamp (convert ?d2) = 1700000005000" "Torque (convert ?d2) = 40"
    "Temperature (convert ?d2) = 301" "Speed (convert ?d2) = 2790" "Vibration (convert ?d2) = 3 / 5"
    "current_tool_wear_pct (convert ?d2) = 41"
    using t2 by simp_all
  have c1: "convert ?d1 = \<lparr>timestamp = 1700000000000, Torque = 42, Temperature = 300, Speed = 2800,
          Vibration = 1 / 2, current_tool_wear_pct = 35\<rparr>"
    using f1 by (cases "convert ?d1") simp
  have c2: "convert ?d2 = \<lparr>timestamp = 1700000005000, Torque = 40, Temperature = 301, Speed = 2790,
           Vibration = 3 / 5, current_tool_wear_pct = 41\<rparr>"
    using f2 by (cases "convert ?d2") simp
  have "historyData (seed_arrives 0 (JsonArray [?d1, ?d2]) mount) = map convert (slice_last 50 [?d1, ?d2])"
    using t1 live_mount by simp
  then show ?thesis using live_mount c1 c2 by (simp add: slice_last_def)
qed

text \<open>
  C9 as stated fails on a record with missing fields whose Torque is present and equal
  to 0: the field that is present is not kept.
\<close>

theorem zero_torque_not_kept:
  "Torque (convert \<lparr>d_time = 1700000000000, d_Torque = Some 0, d_Temperature = None,
      d_Speed = None, d_Vibration = None, d_tool_wear_pct = None\<rparr>) \<noteq> 0"
  by (simp add: convert_def js_or_def)

text \<open>
  C10. A metric field of a history record that is present with the value 0 is replaced
  by the default of the metric: Torque 40, Temperature 300, Speed 2800, Vibration 0.5,
  wear 35; these are the values of the seeded point and of the carry state taken from it.
\<close>

theorem zero_fields_become_defaults:
  "(d_Torque d = Some 0 \<longrightarrow> Torque (convert d) = 40)
   \<and> (d_Temperature d = Some 0 \<longrightarrow> Temperature (convert d) = 300)
   \<and> (d_Speed d = Some 0 \<longrightarrow> Speed (convert d) = 2800)
   \<and> (d_Vibration d = Some 0 \<longrightarrow> Vibration (convert d) = 0.5)
   \<and> (d_tool_wear_pct d = Some 0 \<longrightarrow> current_tool_wear_pct (convert d) = 35)
   \<and> (live k st \<longrightarrow> historyData (seed_arrives k (JsonArray [d]) st) = [convert d]
        \<and> prevValues (seed_arrives k (JsonArray [d]) st) = prev_of (convert d))"
proof -
  have "historyData (seed_arrives k (JsonArray [d]) st) = [convert d]
        \<and> prevValues (seed_arrives k (JsonArray [d]) st) = prev_of (convert d)"
    if "live k st"
    using seed_live [OF that, of "[d]"] by (simp add: initialData_single)
  then show ?thesis
    by (simp add: convert_def js_or_def)
qed

theorem zero_fields_become_defaults_witness:
  "live 0 mount
   \<and> historyData (seed_arrives 0 (JsonArray
        [\<lparr>d_time = 1700000000000, d_Torque = Some 0, d_Temperature = Some 0, d_Speed = Some 0,
          d_Vibration = Some 0, d_tool_wear_pct = Some 0\<rparr>]) mount)
       = [\<lparr>timestamp = 1700000000000, Torque = 40, Temperature = 300, Speed = 2800,
           Vibration = 0.5, current_tool_wear_pct = 35\<rparr>]
   \<and> prevValues (seed_arrives 0 (JsonArray
        [\<lparr>d_time = 1700000000000, d_Torque = Some 0, d_Temperature = Some 0, d_Speed = Some 0,
          d_Vibration = Some 0, d_tool_wear_pct = Some 0\<rparr>]) mount)
       = default_prev"
proof -
  let ?d = "\<lparr>d_time = 1700000000000, d_Torque = Some 0, d_Temperature = Some 0, d_Speed = Some 0,
          d_Vibration = Some 0, d_tool_wear_pct = Some 0\<rparr>"
  note t = zero_fields_become_defaults [of ?d 0 mount]
  have f: "Torque (convert ?d) = 40" "Temperature (convert ?d) = 300" "Speed (convert ?d) = 2800"
    "Vibration (convert ?d) = 0.5" "current_tool_wear_pct (convert ?d) = 35"
    using t by simp_all
  have ts: "timestamp (convert ?d) = 1700000000000" by (simp add: convert_def)
  have c: "convert ?d = \<lparr>timestamp = 1700000000000, Torque = 40, Temperature = 300, Speed = 2800,
           Vibration = 0.5, current_tool_wear_pct = 35\<rparr>"
    using f ts by (cases "convert ?d") simp
  have p: "prev_of (convert ?d) = default_prev"
    unfolding c by (simp add: prev_of_def default_prev_def)
  show ?thesis using t live_mount c p by simp
qed

text \<open>
  C5. The seed request and the ticks interleave as events. A tick of a live run
  computes from the carry state and the window as they are, seeded or not. A non-empty
  seed that arrives at a live run, after any number of its ticks, replaces the window by
  the converted records and the carry state by the values of the last of them. A result
  that arrives for run \<open>k\<close> after a later event has ended that run (a change of range or
  subject, or the unmount) finds the flag of the run down and changes nothing, whatever
  happened in between.
\<close>

theorem seed_fetch_interleaving:
  "(live k st \<longrightarrow>
      prevValues (tick k env st) =
        fst (generateNewDataPoint (tickCount (closures st ! k) + 1) (prevValues st) env)
      \<and> historyData (tick k env st) =
          slice_last MAX_DATA_POINTS
            (historyData st
              @ [snd (generateNewDataPoint (tickCount (closures st ! k) + 1) (prevValues st) env)]))
   \<and> (live k st \<and> data \<noteq> [] \<longrightarrow>
        historyData (seed_arrives k (JsonArray data) (ticks k st envs)) = initialData data
        \<and> prevValues (seed_arrives k (JsonArray data) (ticks k st envs))
            = prev_of (last (initialData data)))
   \<and> (k < length (closures (exec mount evs)) \<and> ends_run e \<longrightarrow>
        seed_arrives k res (exec (step (exec mount evs) e) evs')
          = exec (step (exec mount evs) e) evs')"
proof (intro conjI impI)
  assume l: "live k st"
  show "prevValues (tick k env st) =
        fst (generateNewDataPoint (tickCount (closures st ! k) + 1) (prevValues st) env)"
    using tick_live [OF l, of env] by simp
  show "historyData (tick k env st) =
          slice_last MAX_DATA_POINTS
            (historyData st
              @ [snd (generateNewDataPoint (tickCount (closures st ! k) + 1) (prevValues st) env)])"
    using tick_live [OF l, of env] by simp
next
  assume a: "live k st \<and> data \<noteq> []"
  show "historyData (seed_arrives k (JsonArray data) (ticks k st envs)) = initialData data"
    using a seed_after_ticks [of k st data envs] by simp
  show "prevValues (seed_arrives k (JsonArray data) (ticks k st envs))
            = prev_of (last (initialData data))"
    using a seed_after_ticks [of k st data envs] by simp
next
  assume a: "k < length (closures (exec mount evs)) \<and> ends_run e"
  show "seed_arrives k res (exec (step (exec mount evs) e) evs')
          = exec (step (exec mount evs) e) evs'"
    using a seed_after_ends_run [of k evs e res evs'] by simp
qed

theorem seed_fetch_interleaving_witness:
  "live 0 mount
   \<and> prevValues (tick 0 (mid_env 1700000000000) mount)
       = fst (generateNewDataPoint 1 default_prev (mid_env 1700000000000))
   \<and> historyData (tick 0 (mid_env 1700000000000) mount)
       = [snd (generateNewDataPoint 1 default_prev (mid_env 1700000000000))]
   \<and> historyData (seed_arrives 0
        (JsonArray [\<lparr>d_time = 1699999995000, d_Torque = Some 42, d_Temperature = None,
           d_Speed = None, d_Vibration = None, d_tool_wear_pct = None\<rparr>])
        (ticks 0 mount (clock_envs 1700000000000 3)))
       = [\<lparr>timestamp = 1699999995000, Torque = 42, Temperature = 300, Speed = 2800,
           Vibration = 1 / 2, current_tool_wear_pct = 35\<rparr>]
   \<and> prevValues (seed_arrives 0
        (JsonArray [\<lparr>d_time = 1699999995000, d_Torque = Some 42, d_Temperature = None,
           d_Speed = None, d_Vibration = None, d_tool_wear_pct = None\<rparr>])
        (ticks 0 mount (clock_envs 1700000000000 3)))
       = \<lparr>pv_Torque = 42, pv_Temperature = 300, pv_Speed = 2800, pv_Vibration = 1 / 2,
          pv_current_tool_wear_pct = 35\<rparr>
   \<and> 0 < length (closures (exec mount [Tick 0 (mid_env 1700000000000)]))
   \<and> ends_run RangeChange
   \<and> seed_arrives 0
        (JsonArray [\<lparr>d_time = 1699999995000, d_Torque = Some 42, d_Temperature = None,
           d_Speed = None, d_Vibration = None, d_tool_wear_pct = None\<rparr>])
        (exec (step (exec mount [Tick 0 (mid_env 1700000000000)]) RangeChange)
           [Tick 1 (mid_env 1700000005000)])
       = exec (step (exec mount [Tick 0 (mid_env 1700000000000)]) RangeChange)
           [Tick 1 (mid_env 1700000005000)]"
proof -
  let ?d = "\<lparr>d_time = 1699999995000, d_Torque = Some 42, d_Temperature = None,
           d_Speed = None, d_Vibration = None, d_tool_wear_pct = None\<rparr>"
  let ?evs = "[Tick 0 (mid_env 1700000000000)]"
  note t = seed_fetch_interleaving [of 0 mount "mid_env 1700000000000" "[?d]"
      "clock_envs 1700000000000 3" ?evs RangeChange "JsonArray [?d]" "[Tick 1 (mid_env 1700000005000)]"]
  have n: "0 < length (closures (exec mount ?evs))" by (rule closures_exec_mount)
  have i: "initialData [?d] = [\<lparr>timestamp = 1699999995000, Torque = 42, Temperature = 300,
      Speed = 2800, Vibration = 1 / 2, current_tool_wear_pct = 35\<rparr>]"
    by (simp add: initialData_single convert_def js_or_def)
  have p: "prev_of (last (initialData [?d])) = \<lparr>pv_Torque = 42, pv_Temperature = 300,
      pv_Speed = 2800, pv_Vibration = 1 / 2, pv_current_tool_wear_pct = 35\<rparr>"
    unfolding i by (simp add: prev_of_def)
  have e: "ends_run RangeChange" by simp
  have c: "tickCount (closures mount ! 0) + 1 = 1" "prevValues mount = default_prev"
    "historyData mount = []"
    by (simp_all add: mount_simps)
  have s: "slice_last MAX_DATA_POINTS [x] = [x]" for x :: sample
    by (simp add: slice_last_def MAX_DATA_POINTS_def)
  have k: "prevValues (tick 0 (mid_env 1700000000000) mount)
       = fst (generateNewDataPoint (tickCount (closures mount ! 0) + 1) (prevValues mount)
           (mid_env 1700000000000))"
    "historyData (tick 0 (mid_env 1700000000000) mount)
       = slice_last MAX_DATA_POINTS (historyData mount
           @ [snd (generateNewDataPoint (tickCount (closures mount ! 0) + 1) (prevValues mount)
                (mid_env 1700000000000))])"
    using t live_mount by blast+
  have a: "historyData (seed_arrives 0 (JsonArray [?d]) (ticks 0 mount (clock_envs 1700000000000 3)))
      = initialData [?d]"
    "prevValues (seed_arrives 0 (JsonArray [?d]) (ticks 0 mount (clock_envs 1700000000000 3)))
      = prev_of (last (initialData [?d]))"
    using t live_mount by blast+
  have b: "seed_arrives 0 (JsonArray [?d])
        (exec (step (exec mount ?evs) RangeChange) [Tick 1 (mid_env 1700000005000)])
       = exec (step (exec mount ?evs) RangeChange) [Tick 1 (mid_env 1700000005000)]"
    using t n e by blast
  show ?thesis
    using live_mount k(1) [unfolded c] k(2) [unfolded c append_Nil s] a(1) [unfolded i]
      a(2) [unfolded p] n e b
    by blast
qed

text \<open>
  C6. A change of the time range leaves an empty window, so that no point of the old
  window remains, and the carry state at its defaults (Torque 40, Temperature 300, Speed
  2800, Vibration 0.5, wear 35). The window that the ticks of the new run build depends
  on their inputs only, not on the state before the change, and a seed result of any
  earlier run is dropped when it arrives after the change.
\<close>

theorem range_change_discards_everything:
  "historyData (step st RangeChange) = []
   \<and> prevValues (step st RangeChange) =
       \<lparr>pv_Torque = 40, pv_Temperature = 300, pv_Speed = 2800, pv_Vibration = 0.5,
        pv_current_tool_wear_pct = 35\<rparr>
   \<and> list_all (\<lambda>s. s \<notin> set (historyData (step st RangeChange))) (historyData st)
   \<and> historyData (ticks (length (closures st)) (step st RangeChange) envs)
       = slice_last MAX_DATA_POINTS (generated 0 default_prev envs)
   \<and> (k < length (closures (exec mount evs)) \<longrightarrow>
        seed_arrives k res (exec (step (exec mount evs) RangeChange) evs')
          = exec (step (exec mount evs) RangeChange) evs')"
proof (intro conjI impI)
  show h: "historyData (step st RangeChange) = []" by (rule range_change_simps)
  show "prevValues (step st RangeChange) =
       \<lparr>pv_Torque = 40, pv_Temperature = 300, pv_Speed = 2800, pv_Vibration = 0.5,
        pv_current_tool_wear_pct = 35\<rparr>"
    unfolding range_change_simps default_prev_def ..
  show "list_all (\<lambda>s. s \<notin> set (historyData (step st RangeChange))) (historyData st)"
    unfolding h by (simp add: list_all_iff)
  show "historyData (ticks (length (closures st)) (step st RangeChange) envs)
       = slice_last MAX_DATA_POINTS (generated 0 default_prev envs)"
    by (rule window_after_range_change)
  show "seed_arrives k res (exec (step (exec mount evs) RangeChange) evs')
          = exec (step (exec mount evs) RangeChange) evs'"
    if "k < length (closures (exec mount evs))"
    using that by (intro seed_after_ends_run) simp_all
qed

theorem range_change_discards_everything_witness:
  "historyData (exec mount [Tick 0 (mid_env 1700000000000)]) \<noteq> []
   \<and> historyData (step (exec mount [Tick 0 (mid_env 1700000000000)]) RangeChange) = []
   \<and> prevValues (step (exec mount [Tick 0 (mid_env 1700000000000)]) RangeChange) = default_prev
   \<and> 0 < length (closures (exec mount [Tick 0 (mid_env 1700000000000)]))
   \<and> seed_arrives 0
        (JsonArray [\<lparr>d_time = 1699999995000, d_Torque = Some 42, d_Temperature = None,
           d_Speed = None, d_Vibration = None, d_tool_wear_pct = None\<rparr>])
        (exec (step (exec mount [Tick 0 (mid_env 1700000000000)]) RangeChange) [])
       = exec (step (exec mount [Tick 0 (mid_env 1700000000000)]) RangeChange) []"
proof -
  let ?d = "\<lparr>d_time = 1699999995000, d_Torque = Some 42, d_Temperature = None,
           d_Speed = None, d_Vibration = None, d_tool_wear_pct = None\<rparr>"
  let ?evs = "[Tick 0 (mid_env 1700000000000)]"
  note t = range_change_discards_everything [of "exec mount ?evs" "[]" 0 ?evs "JsonArray [?d]" "[]"]
  have w: "historyData (exec mount ?evs) \<noteq> []"
    using tick_appends [OF live_mount, of "mid_env 1700000000000"] by (simp add: exec_def)
  have n: "0 < length (closures (exec mount ?evs))" by (rule closures_exec_mount)
  have "historyData (step (exec mount ?evs) RangeChange) = []"
    using t by blast
  moreover have "prevValues (step (exec mount ?evs) RangeChange) = default_prev"
    unfolding default_prev_def using t by blast
  moreover have "seed_arrives 0 (JsonArray [?d]) (exec (step (exec mount ?evs) RangeChange) [])
       = exec (step (exec mount ?evs) RangeChange) []"
    using t n by blast
  ultimately show ?thesis using w n by blast
qed

text \<open>
  C8, as amended. A request that fails (network error, status not OK, malformed JSON), a
  body that is not an array and an empty array leave the whole state as it was when the
  outcome arrived: the window stays empty and the carry state at its defaults after the
  mount and after a change of range. Nothing is raised to the caller, the outcome being
  at most logged, and the next tick of a live run appends its point as if no request
  had been made.
\<close>

theorem failed_seed_changes_nothing:
  "(no_seed res \<longrightarrow> seed_arrives k res st = st)
   \<and> (no_seed res \<longrightarrow>
        historyData (seed_arrives k res mount) = []
        \<and> prevValues (seed_arrives k res mount) = default_prev)
   \<and> (no_seed res \<longrightarrow>
        historyData (seed_arrives k res (step st RangeChange)) = []
        \<and> prevValues (seed_arrives k res (step st RangeChange)) = default_prev)
   \<and> (no_seed res \<and> live k st \<longrightarrow>
        tick k env (seed_arrives k res st) = tick k env st
        \<and> historyData (tick k env (seed_arrives k res st)) \<noteq> []
        \<and> last (historyData (tick k env (seed_arrives k res st)))
            = snd (generateNewDataPoint (tickCount (closures st ! k) + 1) (prevValues st) env))"
proof (intro conjI impI)
  assume n: "no_seed res"
  show "seed_arrives k res st = st" using n by (rule no_seed_unchanged)
  show "historyData (seed_arrives k res mount) = []"
    unfolding no_seed_unchanged [OF n] by (rule mount_simps)
  show "prevValues (seed_arrives k res mount) = default_prev"
    unfolding no_seed_unchanged [OF n] by (rule mount_simps)
  show "historyData (seed_arrives k res (step st RangeChange)) = []"
    unfolding no_seed_unchanged [OF n] by (rule range_change_simps)
  show "prevValues (seed_arrives k res (step st RangeChange)) = default_prev"
    unfolding no_seed_unchanged [OF n] by (rule range_change_simps)
next
  assume a: "no_seed res \<and> live k st"
  then have n: "no_seed res" and l: "live k st" by simp_all
  show "tick k env (seed_arrives k res st) = tick k env st"
    unfolding no_seed_unchanged [OF n] ..
  show "historyData (tick k env (seed_arrives k res st)) \<noteq> []"
    unfolding no_seed_unchanged [OF n] using tick_appends [OF l, of env] by simp
  show "last (historyData (tick k env (seed_arrives k res st)))
            = snd (generateNewDataPoint (tickCount (closures st ! k) + 1) (prevValues st) env)"
    unfolding no_seed_unchanged [OF n] using tick_appends [OF l, of env] by simp
qed

theorem failed_seed_changes_nothing_witness:
  "no_seed NetworkError \<and> no_seed (JsonArray []) \<and> live 0 mount
   \<and> seed_arrives 0 NetworkError mount = mount
   \<and> historyData (seed_arrives 0 NetworkError mount) = []
   \<and> prevValues (seed_arrives 0 NetworkError mount) = default_prev
   \<and> historyData (seed_arrives 1 (JsonArray []) (step mount RangeChange)) = []
   \<and> prevValues (seed_arrives 1 (JsonArray []) (step mount RangeChange)) = default_prev
   \<and> historyData (tick 0 (mid_env 1700000000000) (seed_arrives 0 NetworkError mount)) \<noteq> []
   \<and> last (historyData (tick 0 (mid_env 1700000000000) (seed_arrives 0 NetworkError mount)))
       = snd (generateNewDataPoint 1 default_prev (mid_env 1700000000000))"
proof -
  note a = failed_seed_changes_nothing [of NetworkError 0 mount "mid_env 1700000000000"]
  note b = failed_seed_changes_nothing [of "JsonArray []" 1 mount "mid_env 1700000000000"]
  have n: "no_seed NetworkError" "no_seed (JsonArray [])" by simp_all
  have c: "tickCount (closures mount ! 0) + 1 = 1" "prevValues mount = default_prev"
    by (simp_all add: mount_simps)
  have "seed_arrives 0 NetworkError mount = mount"
    "historyData (seed_arrives 0 NetworkError mount) = []"
    "prevValues (seed_arrives 0 NetworkError mount) = default_prev"
    using a n(1) by blast+
  moreover have "historyData (seed_arrives 1 (JsonArray []) (step mount RangeChange)) = []"
    "prevValues (seed_arrives 1 (JsonArray []) (step mount RangeChange)) = default_prev"
    using b n(2) by blast+
  moreover have "historyData (tick 0 (mid_env 1700000000000) (seed_arrives 0 NetworkError mount)) \<noteq> []"
    "last (historyData (tick 0 (mid_env 1700000000000) (seed_arrives 0 NetworkError mount)))
       = snd (generateNewDataPoint (tickCount (closures mount ! 0) + 1) (prevValues mount)
           (mid_env 1700000000000))"
    using a n(1) live_mount by blast+
  ultimately show ?thesis using n live_mount unfolding c by blast
qed

text \<open>
  C8 as stated fails when the streaming effect re-runs because \<^verbatim>\<open>robot?.id\<close> changed:
  the reset effect does not run, so after one tick, the change of subject and a failed
  request of the new run, the window still holds the point of the tick and the carry
  state its values.
\<close>

theorem failed_seed_after_subject_change:
  "historyData (exec mount
      [Tick 0 (mid_env 1700000000000), SubjectChange, SeedArrives 1 NetworkError]) \<noteq> []
   \<and> prevValues (exec mount
      [Tick 0 (mid_env 1700000000000), SubjectChange, SeedArrives 1 NetworkError]) \<noteq> default_prev"
proof -
  let ?t = "tick 0 (mid_env 1700000000000) mount"
  have e: "exec mount [Tick 0 (mid_env 1700000000000), SubjectChange, SeedArrives 1 NetworkError]
      = run_effect (cleanup ?t)"
    by (simp add: exec_def no_seed_unchanged)
  have h: "historyData (run_effect (cleanup ?t)) \<noteq> []"
    unfolding untouched_by_effects
    using tick_appends [OF live_mount, of "mid_env 1700000000000"] by simp
  have pv: "prevValues ?t = fst (generateNewDataPoint 1 default_prev (mid_env 1700000000000))"
    using tick_live [OF live_mount, of "mid_env 1700000000000"] by (simp add: mount_simps)
  have "pv_Speed (prevValues (run_effect (cleanup ?t))) = 2800 + 15 * sin (3 / 10 :: real)"
    unfolding untouched_by_effects pv by (rule first_speed)
  then have "pv_Speed (prevValues (run_effect (cleanup ?t))) \<noteq> pv_Speed default_prev"
    using sin_03 by (simp add: default_prev_def)
  then have p: "prevValues (run_effect (cleanup ?t)) \<noteq> default_prev"
    by auto
  show ?thesis unfolding e using h p by blast
qed

end
